theory Spec2Isabelle
  imports Main "HOL-Library.AList" "HOL-Library.Multiset"
begin

section \<open>The prompt library of \<^verbatim>\<open>src/app.jsx\<close>\<close>

text \<open>
  The component \<^verbatim>\<open>App\<close> keeps ten state cells and one ref, registers two effects
  (Firebase initialisation, Firestore subscription), three asynchronous handlers
  (\<^verbatim>\<open>handleAddPrompt\<close>, \<^verbatim>\<open>handleDeletePrompt\<close>, \<^verbatim>\<open>handleUpdatePrompt\<close>), the synchronous
  \<^verbatim>\<open>startEditing\<close>, three inline \<^verbatim>\<open>onChange\<close>/\<^verbatim>\<open>onClick\<close> setters, and a render function.
  The state cells become a record that every handler takes and returns. An asynchronous
  handler is split at its \<^verbatim>\<open>await\<close>: the part before it (\<open>_call\<close>) returns the request
  handed to the Firebase SDK, the part after it (\<open>_settled\<close>) takes the outcome of the
  awaited promise. Other events may run between the two parts.
\<close>

subsection \<open>JavaScript values\<close>

text \<open>
  The values that reach the program through a document's fields: strings, Firestore
  timestamps (given by their \<^verbatim>\<open>toMillis()\<close>; those written by this program come from
  \<^verbatim>\<open>new Date()\<close> and are whole milliseconds), \<^verbatim>\<open>null\<close>, and \<^verbatim>\<open>undefined\<close> for a field
  that is absent. A \<open>string\<close> stands for a JavaScript string whose code units are below
  256. \<^verbatim>\<open>===\<close> is equality of these values; for two timestamp objects JavaScript
  compares references, and the model takes timestamps of equal value for the same object.
\<close>

datatype jsval = JUndefined | JNull | JString string | JTimestamp int

text \<open>The operator \<^verbatim>\<open>!\<close> on a value, on a nullable string and on a nullable handle.\<close>

fun js_not :: "jsval \<Rightarrow> bool" where
  "js_not JUndefined = True"
| "js_not JNull = True"
| "js_not (JString s) = (s = [])"
| "js_not (JTimestamp ms) = False"

fun js_not_str :: "string option \<Rightarrow> bool" where
  "js_not_str None = True"
| "js_not_str (Some s) = (s = [])"

fun js_not_handle :: "nat option \<Rightarrow> bool" where
  "js_not_handle None = True"
| "js_not_handle (Some h) = False"

text \<open>
  \<^verbatim>\<open>String.prototype.trim\<close>: white space and line terminators of ECMAScript among the code
  units below 256 are TAB, LF, VT, FF, CR, SPACE and NBSP.
\<close>

definition js_whitespace :: "char \<Rightarrow> bool" where
  "js_whitespace c = (of_char c \<in> {9, 10, 11, 12, 13, 32, 160 :: nat})"

definition js_trim :: "string \<Rightarrow> string" where
  "js_trim s = rev (dropWhile js_whitespace (rev (dropWhile js_whitespace s)))"

text \<open>
  String conversion inside a template literal. A Firestore \<^verbatim>\<open>Timestamp\<close> prints its
  seconds and nanoseconds in decimal.
\<close>

definition digit_char :: "nat \<Rightarrow> char" where
  "digit_char n = ''0123456789'' ! (n mod 10)"

function show_nat :: "nat \<Rightarrow> string" where
  "show_nat n =
     (if n < 10 then [digit_char n] else show_nat (n div 10) @ [digit_char (n mod 10)])"
  by pat_completeness auto
termination
  by (relation "measure (\<lambda>n. n)") auto

definition show_int :: "int \<Rightarrow> string" where
  "show_int i = (if i < 0 then CHR ''-'' # show_nat (nat (- i)) else show_nat (nat i))"

fun js_toString :: "jsval \<Rightarrow> string" where
  "js_toString JUndefined = ''undefined''"
| "js_toString JNull = ''null''"
| "js_toString (JString s) = s"
| "js_toString (JTimestamp ms) =
     ''Timestamp(seconds='' @ show_int (ms div 1000) @ '', nanoseconds=''
       @ show_int ((ms mod 1000) * 1000000) @ '')''"

fun js_toString_str :: "string option \<Rightarrow> string" where
  "js_toString_str None = ''null''"
| "js_toString_str (Some s) = s"

subsection \<open>Documents and prompts\<close>

text \<open>
  An object is the list of its properties in insertion order; setting a property that
  exists replaces its value in place (\<open>AList.update\<close>). A document of a snapshot is its
  \<^verbatim>\<open>doc.id\<close> with its \<^verbatim>\<open>doc.data()\<close>.
\<close>

type_synonym obj = "(string \<times> jsval) list"

type_synonym doc = "string \<times> obj"

definition prop_of :: "obj \<Rightarrow> string \<Rightarrow> jsval" where
  "prop_of p k = (case map_of p k of None \<Rightarrow> JUndefined | Some v \<Rightarrow> v)"

text \<open>\<^verbatim>\<open>doc => ({ id: doc.id, ...doc.data() })\<close>: the data's properties are set after \<^verbatim>\<open>id\<close>.\<close>

definition toPrompt :: "doc \<Rightarrow> obj" where
  "toPrompt d = fold (\<lambda>(k, v). AList.update k v) (snd d) [(''id'', JString (fst d))]"

subsection \<open>The comparator and the sort\<close>

datatype js_error = TypeError

datatype jsnum = Num int | NaN

text \<open>
  \<^verbatim>\<open>x?.toMillis()\<close>: \<^verbatim>\<open>undefined\<close> (here \<open>None\<close>) when \<^verbatim>\<open>x\<close> is nullish, the milliseconds of a
  timestamp, a \<^verbatim>\<open>TypeError\<close> on a string, which has no such method.
\<close>

fun toMillis :: "jsval \<Rightarrow> js_error + int option" where
  "toMillis JUndefined = Inr None"
| "toMillis JNull = Inr None"
| "toMillis (JTimestamp ms) = Inr (Some ms)"
| "toMillis (JString s) = Inl TypeError"

fun js_minus :: "int option \<Rightarrow> int option \<Rightarrow> jsnum" where
  "js_minus (Some x) (Some y) = Num (x - y)"
| "js_minus x y = NaN"

text \<open>\<^verbatim>\<open>(a, b) => b.createdAt?.toMillis() - a.createdAt?.toMillis()\<close>, left operand first.\<close>

definition compareCreatedAt :: "obj \<Rightarrow> obj \<Rightarrow> js_error + jsnum" where
  "compareCreatedAt a b =
     (case toMillis (prop_of b ''createdAt'') of
        Inl e \<Rightarrow> Inl e
      | Inr x \<Rightarrow>
          (case toMillis (prop_of a ''createdAt'') of
             Inl e \<Rightarrow> Inl e
           | Inr y \<Rightarrow> Inr (js_minus x y)))"

text \<open>
  \<^verbatim>\<open>Array.prototype.sort\<close> with a comparator. ECMAScript reads a comparator result of
  \<^verbatim>\<open>NaN\<close> as \<open>+0\<close>, asks for a stable sort, stops at the first exception of the
  comparator, and leaves the order to the implementation when the comparator is not
  consistent. The sort is taken to be the stable insertion sort: \<open>a\<close> moves behind \<open>b\<close>
  exactly when the comparator is positive on \<open>(a, b)\<close>. For a consistent comparator this
  is the result of every conforming engine.
\<close>

fun sorts_after :: "jsnum \<Rightarrow> bool" where
  "sorts_after NaN = False"
| "sorts_after (Num v) = (0 < v)"

fun js_insort :: "('a \<Rightarrow> 'a \<Rightarrow> js_error + jsnum) \<Rightarrow> 'a \<Rightarrow> 'a list \<Rightarrow> js_error + 'a list" where
  "js_insort cmp x [] = Inr [x]"
| "js_insort cmp x (y # ys) =
     (case cmp x y of
        Inl e \<Rightarrow> Inl e
      | Inr v \<Rightarrow>
          if sorts_after v
          then (case js_insort cmp x ys of Inl e \<Rightarrow> Inl e | Inr zs \<Rightarrow> Inr (y # zs))
          else Inr (x # y # ys))"

fun js_sort :: "('a \<Rightarrow> 'a \<Rightarrow> js_error + jsnum) \<Rightarrow> 'a list \<Rightarrow> js_error + 'a list" where
  "js_sort cmp [] = Inr []"
| "js_sort cmp (x # xs) =
     (case js_sort cmp xs of Inl e \<Rightarrow> Inl e | Inr ys \<Rightarrow> js_insort cmp x ys)"

subsection \<open>Configuration, state, requests\<close>

text \<open>
  The globals read with \<^verbatim>\<open>typeof\<close>: \<^verbatim>\<open>__app_id\<close> (\<open>None\<close> when undefined),
  \<^verbatim>\<open>__firebase_config\<close> (only tested for being defined) and \<^verbatim>\<open>__initial_auth_token\<close>.
\<close>

record config =
  app_id :: "string option"
  firebase_config_defined :: bool
  initial_auth_token :: "string option"

record app_state =
  isLoading :: bool
  error :: "string option"
  auth :: "nat option"
  db :: "nat option"
  userId :: "string option"
  prompts :: "obj list"
  newPrompt :: string
  isSubmitting :: bool
  editingPromptId :: jsval
  editingPromptText :: jsval
  isInitialized :: bool

text \<open>The initial values of the \<^verbatim>\<open>useState\<close> and \<^verbatim>\<open>useRef\<close> calls.\<close>

definition initial_state :: app_state where
  "initial_state =
     \<lparr> isLoading = True, error = None, auth = None, db = None, userId = None,
       prompts = [], newPrompt = [], isSubmitting = False,
       editingPromptId = JNull, editingPromptText = JString [], isInitialized = False \<rparr>"

text \<open>
  What the program hands to the SDK: \<^verbatim>\<open>onSnapshot(query(collection(db, path)))\<close>,
  \<^verbatim>\<open>addDoc(collection(db, path), fields)\<close>, \<^verbatim>\<open>deleteDoc(doc(db, path))\<close> and
  \<^verbatim>\<open>updateDoc(doc(db, path), fields)\<close>, and how an awaited call ends.
\<close>

datatype request =
    Subscribe string
  | AddDoc string obj
  | DeleteDoc string
  | UpdateDoc string obj

datatype outcome = Resolved | Rejected

subsection \<open>Paths\<close>

text \<open>\<^verbatim>\<open>typeof __app_id !== 'undefined' ? __app_id : 'default-app-id'\<close>\<close>

definition appId :: "config \<Rightarrow> string" where
  "appId cfg = (case app_id cfg of None \<Rightarrow> ''default-app-id'' | Some a \<Rightarrow> a)"

definition collectionPath :: "config \<Rightarrow> string option \<Rightarrow> string" where
  "collectionPath cfg uid =
     ''/artifacts/'' @ appId cfg @ ''/users/'' @ js_toString_str uid @ ''/prompts''"

definition docPath :: "config \<Rightarrow> string option \<Rightarrow> jsval \<Rightarrow> string" where
  "docPath cfg uid promptId =
     ''/artifacts/'' @ appId cfg @ ''/users/'' @ js_toString_str uid @ ''/prompts/''
       @ js_toString promptId"

text \<open>
  The path as the specification writes it, \<^verbatim>\<open>artifacts/{appId}/users/{userId}/prompts\<close>,
  for comparison with \<open>collectionPath\<close>.
\<close>

definition spec_collection_path :: "string \<Rightarrow> string \<Rightarrow> string" where
  "spec_collection_path a u = ''artifacts/'' @ a @ ''/users/'' @ u @ ''/prompts''"

text \<open>
  Modelled from the spec: the document store is an external collaborator whose
  addressing is hierarchical (section 6). A path string addresses the sequence of its
  non-empty segments between slashes, so a leading slash addresses nothing more.
\<close>

fun split_slash :: "string \<Rightarrow> string list" where
  "split_slash [] = [[]]"
| "split_slash (c # cs) =
     (if c = CHR ''/'' then [] # split_slash cs
      else (case split_slash cs of [] \<Rightarrow> [[c]] | seg # segs \<Rightarrow> (c # seg) # segs))"

definition path_segments :: "string \<Rightarrow> string list" where
  "path_segments p = filter (\<lambda>seg. seg \<noteq> []) (split_slash p)"

subsection \<open>Effects and subscription callbacks\<close>

text \<open>
  The initialisation effect. \<open>sdk\<close> tells whether \<^verbatim>\<open>initializeApp\<close>, \<^verbatim>\<open>getAuth\<close> and
  \<^verbatim>\<open>getFirestore\<close> return or throw, \<open>h\<close> is the handle they return.
\<close>

definition init_effect :: "config \<Rightarrow> outcome \<Rightarrow> nat \<Rightarrow> app_state \<Rightarrow> app_state" where
  "init_effect cfg sdk h s =
     (if isInitialized s then s
      else if firebase_config_defined cfg \<and> sdk = Resolved
      then s\<lparr>isInitialized := True, auth := Some h, db := Some h\<rparr>
      else s\<lparr>isInitialized := True,
             error := Some ''Could not connect to the backend. Please check configuration.'',
             isLoading := False\<rparr>)"

text \<open>
  The \<^verbatim>\<open>onAuthStateChanged\<close> callback: with a user it stores the uid; without one it
  awaits \<^verbatim>\<open>signInWithCustomToken\<close> when \<^verbatim>\<open>__initial_auth_token\<close> is defined and not empty,
  \<^verbatim>\<open>signInAnonymously\<close> otherwise, and a rejection sets the error.
\<close>

datatype auth_request = SignInWithCustomToken string | SignInAnonymously

definition signIn_request :: "config \<Rightarrow> auth_request" where
  "signIn_request cfg =
     (if js_not_str (initial_auth_token cfg) then SignInAnonymously
      else SignInWithCustomToken (js_toString_str (initial_auth_token cfg)))"

definition onAuthStateChanged ::
  "config \<Rightarrow> string option \<Rightarrow> outcome \<Rightarrow> app_state \<Rightarrow> app_state \<times> auth_request option" where
  "onAuthStateChanged cfg user signIn s =
     (case user of
        Some uid \<Rightarrow> (s\<lparr>userId := Some uid\<rparr>, None)
      | None \<Rightarrow>
          (case signIn of
             Resolved \<Rightarrow> (s, Some (signIn_request cfg))
           | Rejected \<Rightarrow>
               (s\<lparr>error := Some ''Failed to authenticate. Please refresh the page.''\<rparr>,
                Some (signIn_request cfg))))"

text \<open>The effect on \<^verbatim>\<open>[db, userId]\<close>.\<close>

definition subscription_effect :: "config \<Rightarrow> app_state \<Rightarrow> app_state \<times> request option" where
  "subscription_effect cfg s =
     (if js_not_handle (db s) \<or> js_not_str (userId s) then (s, None)
      else (s\<lparr>isLoading := True\<rparr>, Some (Subscribe (collectionPath cfg (userId s)))))"

text \<open>
  The first callback of \<^verbatim>\<open>onSnapshot\<close>. An exception of the comparator leaves the callback
  before any setter has run.
\<close>

definition onSnapshot_next :: "doc list \<Rightarrow> app_state \<Rightarrow> app_state" where
  "onSnapshot_next docs s =
     (let promptsData = map toPrompt docs
      in case js_sort compareCreatedAt promptsData of
           Inl e \<Rightarrow> s
         | Inr sorted_data \<Rightarrow> s\<lparr>prompts := sorted_data, isLoading := False\<rparr>)"

text \<open>The second callback of \<^verbatim>\<open>onSnapshot\<close>.\<close>

definition onSnapshot_error :: "app_state \<Rightarrow> app_state" where
  "onSnapshot_error s =
     s\<lparr>error := Some ''Failed to load prompts. Please check permissions and network.'',
       isLoading := False\<rparr>"

subsection \<open>Handlers\<close>

text \<open>
  \<^verbatim>\<open>handleAddPrompt\<close>; \<open>now\<close> is the clock read by \<^verbatim>\<open>new Date()\<close>, which the store keeps
  as a timestamp.
\<close>

definition handleAddPrompt_call :: "config \<Rightarrow> int \<Rightarrow> app_state \<Rightarrow> app_state \<times> request option" where
  "handleAddPrompt_call cfg now s =
     (if js_trim (newPrompt s) = [] \<or> js_not_handle (db s) \<or> js_not_str (userId s)
      then (s, None)
      else (s\<lparr>isSubmitting := True\<rparr>,
            Some (AddDoc (collectionPath cfg (userId s))
                    [(''text'', JString (newPrompt s)), (''createdAt'', JTimestamp now)])))"

definition handleAddPrompt_settled :: "outcome \<Rightarrow> app_state \<Rightarrow> app_state" where
  "handleAddPrompt_settled r s =
     (case r of
        Resolved \<Rightarrow> s\<lparr>newPrompt := [], isSubmitting := False\<rparr>
      | Rejected \<Rightarrow> s\<lparr>error := Some ''Failed to save prompt.'', isSubmitting := False\<rparr>)"

definition handleDeletePrompt_call ::
  "config \<Rightarrow> jsval \<Rightarrow> app_state \<Rightarrow> app_state \<times> request option" where
  "handleDeletePrompt_call cfg promptId s =
     (if js_not_handle (db s) \<or> js_not_str (userId s) \<or> js_not promptId then (s, None)
      else (s, Some (DeleteDoc (docPath cfg (userId s) promptId))))"

definition handleDeletePrompt_settled :: "outcome \<Rightarrow> app_state \<Rightarrow> app_state" where
  "handleDeletePrompt_settled r s =
     (case r of
        Resolved \<Rightarrow> s
      | Rejected \<Rightarrow> s\<lparr>error := Some ''Failed to delete prompt.''\<rparr>)"

text \<open>
  \<^verbatim>\<open>handleUpdatePrompt\<close>. When \<^verbatim>\<open>editingPromptText\<close> is not a string, \<^verbatim>\<open>.trim()\<close> throws
  outside the \<^verbatim>\<open>try\<close>: the handler's promise rejects, no setter runs, nothing is sent.
\<close>

definition handleUpdatePrompt_call :: "config \<Rightarrow> app_state \<Rightarrow> app_state \<times> request option" where
  "handleUpdatePrompt_call cfg s =
     (case editingPromptText s of
        JString t \<Rightarrow>
          if js_trim t = [] \<or> js_not_handle (db s) \<or> js_not_str (userId s)
               \<or> js_not (editingPromptId s)
          then (s, None)
          else (s, Some (UpdateDoc (docPath cfg (userId s) (editingPromptId s))
                           [(''text'', JString t)]))
      | JUndefined \<Rightarrow> (s, None)
      | JNull \<Rightarrow> (s, None)
      | JTimestamp ms \<Rightarrow> (s, None))"

definition handleUpdatePrompt_settled :: "outcome \<Rightarrow> app_state \<Rightarrow> app_state" where
  "handleUpdatePrompt_settled r s =
     (case r of
        Resolved \<Rightarrow> s\<lparr>editingPromptId := JNull, editingPromptText := JString []\<rparr>
      | Rejected \<Rightarrow> s\<lparr>error := Some ''Failed to update prompt.''\<rparr>)"

text \<open>A handler run from its call to the end of its promise with nothing in between.\<close>

definition run_handler ::
  "(app_state \<Rightarrow> app_state \<times> request option) \<Rightarrow> (outcome \<Rightarrow> app_state \<Rightarrow> app_state)
     \<Rightarrow> outcome \<Rightarrow> app_state \<Rightarrow> app_state \<times> request option" where
  "run_handler call settled r s =
     (case call s of
        (s1, None) \<Rightarrow> (s1, None)
      | (s1, Some q) \<Rightarrow> (settled r s1, Some q))"

definition handleAddPrompt ::
  "config \<Rightarrow> int \<Rightarrow> outcome \<Rightarrow> app_state \<Rightarrow> app_state \<times> request option" where
  "handleAddPrompt cfg now = run_handler (handleAddPrompt_call cfg now) handleAddPrompt_settled"

definition handleDeletePrompt ::
  "config \<Rightarrow> jsval \<Rightarrow> outcome \<Rightarrow> app_state \<Rightarrow> app_state \<times> request option" where
  "handleDeletePrompt cfg promptId =
     run_handler (handleDeletePrompt_call cfg promptId) handleDeletePrompt_settled"

definition handleUpdatePrompt ::
  "config \<Rightarrow> outcome \<Rightarrow> app_state \<Rightarrow> app_state \<times> request option" where
  "handleUpdatePrompt cfg = run_handler (handleUpdatePrompt_call cfg) handleUpdatePrompt_settled"

definition startEditing :: "obj \<Rightarrow> app_state \<Rightarrow> app_state" where
  "startEditing prompt s =
     s\<lparr>editingPromptId := prop_of prompt ''id'', editingPromptText := prop_of prompt ''text''\<rparr>"

text \<open>The Cancel button: \<^verbatim>\<open>onClick={() => setEditingPromptId(null)}\<close>.\<close>

definition cancelEditing :: "app_state \<Rightarrow> app_state" where
  "cancelEditing s = s\<lparr>editingPromptId := JNull\<rparr>"

text \<open>The two \<^verbatim>\<open>onChange\<close> handlers of the text areas.\<close>

definition newPrompt_onChange :: "string \<Rightarrow> app_state \<Rightarrow> app_state" where
  "newPrompt_onChange v s = s\<lparr>newPrompt := v\<rparr>"

definition editingPromptText_onChange :: "string \<Rightarrow> app_state \<Rightarrow> app_state" where
  "editingPromptText_onChange v s = s\<lparr>editingPromptText := JString v\<rparr>"

subsection \<open>Render\<close>

text \<open>
  What \<^verbatim>\<open>App\<close> returns: the error view with its message, the loading view, or the
  library with the user id, the input buffer, the disabled flags of the text area and
  of the submit button, and one row for each prompt. A row carries its React key and
  either the edit form with the draft or the committed text.
\<close>

datatype row = EditForm jsval jsval | PromptRow jsval jsval

datatype view = ErrorView string | LoadingView | LibraryView string string bool bool "row list"

definition render_row :: "app_state \<Rightarrow> obj \<Rightarrow> row" where
  "render_row s prompt =
     (if editingPromptId s = prop_of prompt ''id''
      then EditForm (prop_of prompt ''id'') (editingPromptText s)
      else PromptRow (prop_of prompt ''id'') (prop_of prompt ''text''))"

definition render :: "app_state \<Rightarrow> view" where
  "render s =
     (if \<not> js_not_str (error s) then ErrorView (js_toString_str (error s))
      else if isLoading s \<or> js_not_str (userId s) then LoadingView
      else LibraryView (js_toString_str (userId s)) (newPrompt s) (isSubmitting s)
             (isSubmitting s \<or> js_trim (newPrompt s) = [])
             (map (render_row s) (prompts s)))"

fun is_edit_form :: "row \<Rightarrow> bool" where
  "is_edit_form (EditForm k v) = True"
| "is_edit_form (PromptRow k v) = False"

fun is_library :: "view \<Rightarrow> bool" where
  "is_library (LibraryView u n d b rows) = True"
| "is_library v = False"

subsection \<open>Events\<close>

text \<open>
  Everything that can change the state, one event for each callback. \<open>step\<close> drops the
  request a call returns. It does not ask whether the control of a user event is on
  screen, so it allows more runs than the interface.
\<close>

datatype event =
    InitEffect outcome nat
  | AuthStateChanged "string option" outcome
  | SubscriptionEffect
  | SnapshotNext "doc list"
  | SnapshotError
  | NewPromptInput string
  | AddPromptCall int
  | AddPromptSettled outcome
  | DeletePromptCall jsval
  | DeletePromptSettled outcome
  | UpdatePromptCall
  | UpdatePromptSettled outcome
  | StartEditing obj
  | CancelEditing
  | EditingInput string

fun step :: "config \<Rightarrow> event \<Rightarrow> app_state \<Rightarrow> app_state" where
  "step cfg (InitEffect sdk h) s = init_effect cfg sdk h s"
| "step cfg (AuthStateChanged user signIn) s = fst (onAuthStateChanged cfg user signIn s)"
| "step cfg SubscriptionEffect s = fst (subscription_effect cfg s)"
| "step cfg (SnapshotNext docs) s = onSnapshot_next docs s"
| "step cfg SnapshotError s = onSnapshot_error s"
| "step cfg (NewPromptInput v) s = newPrompt_onChange v s"
| "step cfg (AddPromptCall now) s = fst (handleAddPrompt_call cfg now s)"
| "step cfg (AddPromptSettled r) s = handleAddPrompt_settled r s"
| "step cfg (DeletePromptCall promptId) s = fst (handleDeletePrompt_call cfg promptId s)"
| "step cfg (DeletePromptSettled r) s = handleDeletePrompt_settled r s"
| "step cfg UpdatePromptCall s = fst (handleUpdatePrompt_call cfg s)"
| "step cfg (UpdatePromptSettled r) s = handleUpdatePrompt_settled r s"
| "step cfg (StartEditing prompt) s = startEditing prompt s"
| "step cfg CancelEditing s = cancelEditing s"
| "step cfg (EditingInput v) s = editingPromptText_onChange v s"

definition run :: "config \<Rightarrow> event list \<Rightarrow> app_state \<Rightarrow> app_state" where
  "run cfg es s = fold (step cfg) es s"




fun request_path :: "request \<Rightarrow> string" where
  "request_path (Subscribe p) = p"
| "request_path (AddDoc p fs) = p"
| "request_path (DeleteDoc p) = p"
| "request_path (UpdateDoc p fs) = p"

subsection \<open>Classes of events\<close>

text \<open>The events whose code calls \<^verbatim>\<open>setIsLoading(false)\<close>.\<close>

fun ends_loading :: "event \<Rightarrow> bool" where
  "ends_loading (InitEffect sdk h) = True"
| "ends_loading (SnapshotNext docs) = True"
| "ends_loading SnapshotError = True"
| "ends_loading e = False"

text \<open>The events whose code calls \<^verbatim>\<open>setEditingPromptText\<close>.\<close>

fun sets_draft :: "event \<Rightarrow> bool" where
  "sets_draft (StartEditing prompt) = True"
| "sets_draft (EditingInput v) = True"
| "sets_draft (UpdatePromptSettled Resolved) = True"
| "sets_draft e = False"

text \<open>The events whose code calls \<^verbatim>\<open>setNewPrompt\<close>.\<close>

fun sets_input :: "event \<Rightarrow> bool" where
  "sets_input (NewPromptInput v) = True"
| "sets_input (AddPromptSettled Resolved) = True"
| "sets_input e = False"

subsection \<open>Properties of snapshots and lists\<close>

text \<open>
  A prompt whose \<^verbatim>\<open>createdAt\<close> is a timestamp or is missing, as the data model has it; a
  prompt that carries a timestamp.
\<close>

definition createdAt_typed :: "obj \<Rightarrow> bool" where
  "createdAt_typed p =
     (case prop_of p ''createdAt'' of
        JString v \<Rightarrow> False
      | JUndefined \<Rightarrow> True
      | JNull \<Rightarrow> True
      | JTimestamp ms \<Rightarrow> True)"

definition createdAt_stamped :: "obj \<Rightarrow> bool" where
  "createdAt_stamped p =
     (case prop_of p ''createdAt'' of
        JTimestamp ms \<Rightarrow> True
      | JUndefined \<Rightarrow> False
      | JNull \<Rightarrow> False
      | JString v \<Rightarrow> False)"

text \<open>
  Sorted by \<^verbatim>\<open>createdAt\<close> descending, in the weakest reading: any two prompts that both
  carry a timestamp stand in descending order; a prompt without one may stand anywhere.
\<close>

definition later_first :: "obj \<Rightarrow> obj \<Rightarrow> bool" where
  "later_first a b =
     (case prop_of a ''createdAt'' of
        JTimestamp x \<Rightarrow>
          (case prop_of b ''createdAt'' of
             JTimestamp y \<Rightarrow> y \<le> x
           | JUndefined \<Rightarrow> True
           | JNull \<Rightarrow> True
           | JString v \<Rightarrow> True)
      | JUndefined \<Rightarrow> True
      | JNull \<Rightarrow> True
      | JString v \<Rightarrow> True)"

definition createdAt_desc :: "obj list \<Rightarrow> bool" where
  "createdAt_desc ps = sorted_wrt later_first ps"

text \<open>A document as the store hands it out: no property twice.\<close>

definition doc_wf :: "doc \<Rightarrow> bool" where
  "doc_wf d = distinct (map fst (snd d))"

subsection \<open>The store\<close>

text \<open>
  Modelled from the spec: \<^verbatim>\<open>updateFields(path, fields)\<close> of the document store
  (section 6), the field-level update behind \<^verbatim>\<open>updateDoc\<close>; the store is an external
  collaborator and not among the sources. The collection at \<open>cpath\<close> holds \<open>docs\<close>; a
  document is addressed by the collection's path, a slash and its id. The update is
  rejected when no such document exists; otherwise it sets the given fields on every
  document so addressed and leaves all else as it is.
\<close>

definition store_updateDoc :: "string \<Rightarrow> doc list \<Rightarrow> string \<Rightarrow> obj \<Rightarrow> outcome \<times> doc list" where
  "store_updateDoc cpath docs path fs =
     (if path \<in> set (map (\<lambda>d. cpath @ ''/'' @ fst d) docs)
      then (Resolved,
            map (\<lambda>d. if cpath @ ''/'' @ fst d = path
                      then (fst d, fold (\<lambda>(k, v). AList.update k v) fs (snd d))
                      else d) docs)
      else (Rejected, docs))"

subsection \<open>Example runs\<close>

definition cfg0 :: config where
  "cfg0 = \<lparr> app_id = None, firebase_config_defined = True, initial_auth_token = None \<rparr>"

definition doc_p1 :: doc where
  "doc_p1 = (''p1'', [(''text'', JString ''first''), (''createdAt'', JTimestamp 1)])"

definition doc_p2 :: doc where
  "doc_p2 = (''p2'', [(''text'', JString ''second'')])"

definition doc_p3 :: doc where
  "doc_p3 = (''p3'', [(''text'', JString ''third''), (''createdAt'', JTimestamp 3)])"

text \<open>Initialisation, sign-in of user \<open>u1\<close>, subscription, before the first snapshot.\<close>

definition subscribed_example :: app_state where
  "subscribed_example =
     run cfg0 [InitEffect Resolved 0, AuthStateChanged (Some ''u1'') Resolved,
               SubscriptionEffect] initial_state"

text \<open>After a first snapshot with the documents \<open>p1\<close> and \<open>p3\<close>.\<close>

definition loaded_example :: app_state where
  "loaded_example = run cfg0 [SnapshotNext [doc_p1, doc_p3]] subscribed_example"

text \<open>The user has opened \<open>p1\<close> for editing and typed a draft.\<close>

definition editing_example :: app_state where
  "editing_example =
     run cfg0 [StartEditing (toPrompt doc_p1), EditingInput ''draft''] loaded_example"

text \<open>A deployment that provides its \<^verbatim>\<open>__app_id\<close>.\<close>

definition cfg1 :: config where
  "cfg1 = \<lparr> app_id = Some ''my-app'', firebase_config_defined = True,
            initial_auth_token = None \<rparr>"


section \<open>Auxiliary facts\<close>

lemmas example_defs = cfg0_def doc_p1_def doc_p2_def doc_p3_def subscribed_example_def
  loaded_example_def editing_example_def run_def initial_state_def

lemmas program_defs = init_effect_def onAuthStateChanged_def signIn_request_def
  subscription_effect_def
  onSnapshot_next_def onSnapshot_error_def toPrompt_def compareCreatedAt_def prop_of_def
  collectionPath_def docPath_def appId_def run_handler_def
  handleAddPrompt_def handleAddPrompt_call_def handleAddPrompt_settled_def
  handleDeletePrompt_def handleDeletePrompt_call_def handleDeletePrompt_settled_def
  handleUpdatePrompt_def handleUpdatePrompt_call_def handleUpdatePrompt_settled_def
  startEditing_def cancelEditing_def newPrompt_onChange_def editingPromptText_onChange_def
  render_def render_row_def js_trim_def js_whitespace_def

lemma dropWhile_all: "(\<forall>x\<in>set (dropWhile P xs). P x) \<longleftrightarrow> (\<forall>x\<in>set xs. P x)"
  by (induction xs) auto

lemma js_trim_empty_iff: "js_trim t = [] \<longleftrightarrow> (\<forall>c\<in>set t. js_whitespace c)"
  by (simp add: js_trim_def dropWhile_eq_Nil_conv dropWhile_all)

lemma loaded_example_eq:
  "loaded_example =
     \<lparr> isLoading = False, error = None, auth = Some 0, db = Some 0, userId = Some ''u1'',
       prompts =
         [[(''id'', JString ''p3''), (''text'', JString ''third''), (''createdAt'', JTimestamp 3)],
          [(''id'', JString ''p1''), (''text'', JString ''first''), (''createdAt'', JTimestamp 1)]],
       newPrompt = [], isSubmitting = False,
       editingPromptId = JNull, editingPromptText = JString [], isInitialized = True \<rparr>"
  by (simp add: example_defs program_defs)

lemma editing_example_eq:
  "editing_example =
     loaded_example\<lparr>editingPromptId := JString ''p1'', editingPromptText := JString ''draft''\<rparr>"
  by (simp add: editing_example_def run_def loaded_example_eq doc_p1_def program_defs)

lemma step_keeps_error: "\<not> js_not_str (error s) \<Longrightarrow> \<not> js_not_str (error (step cfg e s))"
  by (cases e)
    (auto simp: program_defs Let_def split: option.splits outcome.splits sum.splits jsval.splits)

lemma run_keeps_error: "\<not> js_not_str (error s) \<Longrightarrow> \<not> js_not_str (error (run cfg es s))"
  unfolding run_def by (induction es arbitrary: s) (auto simp: step_keeps_error)

lemma render_error_iff: "(\<exists>m. render s = ErrorView m) \<longleftrightarrow> \<not> js_not_str (error s)"
  by (auto simp: render_def)

section \<open>Failed mutations\<close>

text \<open>
  C1, as stated: a failed create, update or delete is not fatal; the prompts list stays,
  a generic message is shown, and the rest of the interface stays interactive instead of
  being replaced by the full-screen error view.

  The first two parts hold, the last does not. The library is on screen, the user deletes
  \<open>p1\<close>, the request is rejected: the handler stores its message in the one \<^verbatim>\<open>error\<close>
  cell, and \<^verbatim>\<open>if (error)\<close> at the head of the render returns the error view.
\<close>

theorem failed_delete_counterexample:
  "is_library (render loaded_example) \<and>
   snd (handleDeletePrompt cfg0 (JString ''p1'') Rejected loaded_example)
     = Some (DeleteDoc ''/artifacts/default-app-id/users/u1/prompts/p1'') \<and>
   render (fst (handleDeletePrompt cfg0 (JString ''p1'') Rejected loaded_example))
     = ErrorView ''Failed to delete prompt.''"
  by (simp add: loaded_example_eq cfg0_def program_defs)

text \<open>
  C1, amended: a failed create, update or delete leaves the prompts list as it is (so does
  the call itself) and stores a generic message in the \<^verbatim>\<open>error\<close> cell; from then on the
  render returns the full-screen error view with that message, the same view as for the
  fatal categories, and whatever events follow, the error view stays.
\<close>

theorem failed_mutation_error_view:
  "prompts (handleAddPrompt_settled Rejected s) = prompts s
   \<and> render (handleAddPrompt_settled Rejected s) = ErrorView ''Failed to save prompt.''
   \<and> prompts (handleDeletePrompt_settled Rejected s) = prompts s
   \<and> render (handleDeletePrompt_settled Rejected s) = ErrorView ''Failed to delete prompt.''
   \<and> prompts (handleUpdatePrompt_settled Rejected s) = prompts s
   \<and> render (handleUpdatePrompt_settled Rejected s) = ErrorView ''Failed to update prompt.''
   \<and> prompts (fst (handleAddPrompt_call cfg now s)) = prompts s
   \<and> prompts (fst (handleDeletePrompt_call cfg promptId s)) = prompts s
   \<and> prompts (fst (handleUpdatePrompt_call cfg s)) = prompts s
   \<and> ((\<exists>m. render s = ErrorView m) \<longrightarrow> (\<exists>m. render (run cfg es s) = ErrorView m))"
proof -
  have "(\<exists>m. render s = ErrorView m) \<longrightarrow> (\<exists>m. render (run cfg es s) = ErrorView m)"
    using run_keeps_error [of s cfg es] by (simp add: render_error_iff)
  moreover have "prompts (fst (handleUpdatePrompt_call cfg s)) = prompts s"
    by (simp add: handleUpdatePrompt_call_def split: jsval.splits)
  ultimately show ?thesis
    by (simp add: handleAddPrompt_settled_def handleDeletePrompt_settled_def
        handleUpdatePrompt_settled_def handleAddPrompt_call_def handleDeletePrompt_call_def
        render_def)
qed

theorem failed_mutation_error_view_witness:
  "prompts (handleDeletePrompt_settled Rejected loaded_example) = prompts loaded_example
   \<and> render (handleDeletePrompt_settled Rejected loaded_example)
       = ErrorView ''Failed to delete prompt.''
   \<and> (\<exists>m. render (run cfg0 [NewPromptInput ''again'', SnapshotNext [doc_p1]]
                   (handleDeletePrompt_settled Rejected loaded_example)) = ErrorView m)"
proof -
  note before = failed_mutation_error_view [of loaded_example cfg0 0 JNull "[]"]
  note after = failed_mutation_error_view
    [of "handleDeletePrompt_settled Rejected loaded_example" cfg0 0 JNull
        "[NewPromptInput ''again'', SnapshotNext [doc_p1]]"]
  from before after show ?thesis by blast
qed

section \<open>Blank input\<close>

text \<open>
  C3: when the text is empty or consists of white space only, create and update are
  no-ops: no request is issued and the state (input buffer, edit overlay, submitting flag,
  prompts list and all the rest) is the one before. The text of create is the input buffer
  \<^verbatim>\<open>newPrompt\<close>, the text of update is the draft \<^verbatim>\<open>editingPromptText\<close>.
\<close>

theorem blank_input_is_noop:
  assumes "\<forall>c\<in>set t. js_whitespace c"
  shows "(newPrompt s = t \<longrightarrow>
            handleAddPrompt_call cfg now s = (s, None) \<and> handleAddPrompt cfg now r s = (s, None))
       \<and> (editingPromptText s = JString t \<longrightarrow>
            handleUpdatePrompt_call cfg s = (s, None) \<and> handleUpdatePrompt cfg r s = (s, None))"
proof -
  from assms have "js_trim t = []" by (simp add: js_trim_empty_iff)
  then show ?thesis
    by (simp add: handleAddPrompt_def handleUpdatePrompt_def run_handler_def
        handleAddPrompt_call_def handleUpdatePrompt_call_def)
qed

theorem blank_input_is_noop_witness:
  "handleAddPrompt cfg0 7 Resolved (loaded_example\<lparr>newPrompt := ''   ''\<rparr>)
     = (loaded_example\<lparr>newPrompt := ''   ''\<rparr>, None)
   \<and> handleUpdatePrompt cfg0 Resolved (editing_example\<lparr>editingPromptText := JString []\<rparr>)
     = (editing_example\<lparr>editingPromptText := JString []\<rparr>, None)"
proof -
  have blank: "\<forall>c\<in>set ''   ''. js_whitespace c"
    by (simp add: js_whitespace_def)
  have empty: "\<forall>c\<in>set []. js_whitespace c"
    by simp
  from blank_input_is_noop [OF blank, of "loaded_example\<lparr>newPrompt := ''   ''\<rparr>" cfg0 7 Resolved]
    blank_input_is_noop
      [OF empty, of "editing_example\<lparr>editingPromptText := JString []\<rparr>" cfg0 7 Resolved]
  show ?thesis by simp
qed

section \<open>The input buffer after a create\<close>

lemma step_keeps_input: "\<not> sets_input e \<Longrightarrow> newPrompt (step cfg e s) = newPrompt s"
  by (cases e)
    (auto simp: program_defs Let_def split: option.splits outcome.splits sum.splits jsval.splits)

lemma run_keeps_input:
  "\<forall>e\<in>set es. \<not> sets_input e \<Longrightarrow> newPrompt (run cfg es s) = newPrompt s"
  unfolding run_def by (induction es arbitrary: s) (auto simp: step_keeps_input)

text \<open>
  C4: a create with non-blank text, a store handle and an identity sends the insert with
  the text and the clock's timestamp. When the insert succeeds the input buffer is
  cleared; when it fails the buffer keeps its contents and the error is surfaced. This is
  so for the handler run in one piece, and also when events \<open>es\<close> run while the request is
  in flight, as long as none of them sets the buffer (its text area is disabled while
  \<^verbatim>\<open>isSubmitting\<close> holds).
\<close>

theorem create_clears_or_keeps_input:
  assumes "js_trim (newPrompt s) \<noteq> []" and "db s = Some h" and "userId s = Some u" and "u \<noteq> []"
    and "\<forall>e\<in>set es. \<not> sets_input e"
  shows "snd (handleAddPrompt_call cfg now s)
           = Some (AddDoc (collectionPath cfg (Some u))
                     [(''text'', JString (newPrompt s)), (''createdAt'', JTimestamp now)])
    \<and> newPrompt (fst (handleAddPrompt cfg now Resolved s)) = []
    \<and> newPrompt (fst (handleAddPrompt cfg now Rejected s)) = newPrompt s
    \<and> render (fst (handleAddPrompt cfg now Rejected s)) = ErrorView ''Failed to save prompt.''
    \<and> newPrompt (run cfg (AddPromptCall now # es @ [AddPromptSettled Resolved]) s) = []
    \<and> newPrompt (run cfg (AddPromptCall now # es @ [AddPromptSettled Rejected]) s) = newPrompt s
    \<and> render (run cfg (AddPromptCall now # es @ [AddPromptSettled Rejected]) s)
           = ErrorView ''Failed to save prompt.''"
proof -
  let ?s1 = "fst (handleAddPrompt_call cfg now s)"
  have s1: "?s1 = s\<lparr>isSubmitting := True\<rparr>"
    and q: "snd (handleAddPrompt_call cfg now s)
           = Some (AddDoc (collectionPath cfg (Some u))
                     [(''text'', JString (newPrompt s)), (''createdAt'', JTimestamp now)])"
    using assms(1-4) by (simp_all add: handleAddPrompt_call_def)
  have run_eq: "run cfg (AddPromptCall now # es @ [AddPromptSettled r]) s
      = handleAddPrompt_settled r (run cfg es ?s1)" for r
    by (simp add: run_def)
  have inflight: "newPrompt (run cfg es ?s1) = newPrompt s"
    using run_keeps_input [OF assms(5), of cfg ?s1] by (simp add: s1)
  have ok: "newPrompt (fst (handleAddPrompt cfg now Resolved s)) = []"
    using assms(1-4)
    by (simp add: handleAddPrompt_def run_handler_def handleAddPrompt_call_def
        handleAddPrompt_settled_def)
  have ko: "newPrompt (fst (handleAddPrompt cfg now Rejected s)) = newPrompt s"
    using assms(1-4)
    by (simp add: handleAddPrompt_def run_handler_def handleAddPrompt_call_def
        handleAddPrompt_settled_def)
  have ko_view:
    "render (fst (handleAddPrompt cfg now Rejected s)) = ErrorView ''Failed to save prompt.''"
    using assms(1-4)
    by (simp add: handleAddPrompt_def run_handler_def handleAddPrompt_call_def
        handleAddPrompt_settled_def render_def)
  have run_ok: "newPrompt (run cfg (AddPromptCall now # es @ [AddPromptSettled Resolved]) s) = []"
    by (simp add: run_eq handleAddPrompt_settled_def)
  have run_ko:
    "newPrompt (run cfg (AddPromptCall now # es @ [AddPromptSettled Rejected]) s) = newPrompt s"
    using inflight by (simp add: run_eq handleAddPrompt_settled_def)
  have run_ko_view: "render (run cfg (AddPromptCall now # es @ [AddPromptSettled Rejected]) s)
           = ErrorView ''Failed to save prompt.''"
    by (simp add: run_eq handleAddPrompt_settled_def render_def)
  from q ok ko ko_view run_ok run_ko run_ko_view show ?thesis by blast
qed

theorem create_clears_or_keeps_input_witness:
  "snd (handleAddPrompt_call cfg0 42 (loaded_example\<lparr>newPrompt := ''Write a haiku''\<rparr>))
     = Some (AddDoc ''/artifacts/default-app-id/users/u1/prompts''
               [(''text'', JString ''Write a haiku''), (''createdAt'', JTimestamp 42)])
   \<and> newPrompt (fst (handleAddPrompt cfg0 42 Resolved
                        (loaded_example\<lparr>newPrompt := ''Write a haiku''\<rparr>))) = []
   \<and> newPrompt (fst (handleAddPrompt cfg0 42 Rejected
                        (loaded_example\<lparr>newPrompt := ''Write a haiku''\<rparr>))) = ''Write a haiku''
   \<and> newPrompt (run cfg0 (AddPromptCall 42 # [SnapshotNext [doc_p1], CancelEditing]
                            @ [AddPromptSettled Rejected])
                  (loaded_example\<lparr>newPrompt := ''Write a haiku''\<rparr>)) = ''Write a haiku''"
proof -
  let ?s = "loaded_example\<lparr>newPrompt := ''Write a haiku''\<rparr>"
  have nonblank: "js_trim (newPrompt ?s) \<noteq> []"
    by (simp add: js_trim_def js_whitespace_def)
  have ready: "db ?s = Some 0" "userId ?s = Some ''u1''" "''u1'' \<noteq> []"
    by (simp_all add: loaded_example_eq)
  have quiet: "\<forall>e\<in>set [SnapshotNext [doc_p1], CancelEditing]. \<not> sets_input e"
    by simp
  have path: "collectionPath cfg0 (Some ''u1'') = ''/artifacts/default-app-id/users/u1/prompts''"
    by (simp add: collectionPath_def appId_def cfg0_def)
  from create_clears_or_keeps_input [OF nonblank ready quiet, of cfg0 42] path
  show ?thesis by simp
qed

section \<open>The editing overlay\<close>

lemma is_edit_form_iff:
  "is_edit_form (render_row s p) \<longleftrightarrow> editingPromptId s = prop_of p ''id''"
  by (simp add: render_row_def)

lemma filter_eq_single:
  "distinct (map f xs) \<Longrightarrow> x \<in> set xs \<Longrightarrow> filter (\<lambda>y. f x = f y) xs = [x]"
proof (induction xs)
  case Nil
  then show ?case by simp
next
  case (Cons a xs)
  show ?case
  proof (cases "a = x")
    case True
    with Cons.prems have "\<forall>y\<in>set xs. f x \<noteq> f y" by auto
    then have "filter (\<lambda>y. f x = f y) xs = []" by (simp add: filter_empty_conv)
    with True show ?thesis by simp
  next
    case False
    with Cons.prems have mem: "x \<in> set xs" by simp
    then have "f x \<in> f ` set xs" by (rule imageI)
    with Cons.prems have "f x \<noteq> f a" by auto
    with Cons mem show ?thesis by simp
  qed
qed

text \<open>
  C6: in every state at most one prompt id is in edit mode: any two rows that the render
  shows as edit forms carry the same id. \<^verbatim>\<open>startEditing(p2)\<close> overwrites the one overlay
  slot: the editing id is the id of \<open>p2\<close>, the draft is the committed text of \<open>p2\<close>, the row
  of \<open>p2\<close> is an edit form, the row of a prompt \<open>p1\<close> with another id is not, and when the
  ids of the list are distinct the row of \<open>p2\<close> is the only edit form.
\<close>

theorem single_editing_overlay:
  "(\<forall>p\<in>set (prompts s). \<forall>q\<in>set (prompts s).
       is_edit_form (render_row s p) \<longrightarrow> is_edit_form (render_row s q)
         \<longrightarrow> prop_of p ''id'' = prop_of q ''id'')
   \<and> editingPromptId (startEditing p2 s) = prop_of p2 ''id''
   \<and> editingPromptText (startEditing p2 s) = prop_of p2 ''text''
   \<and> is_edit_form (render_row (startEditing p2 s) p2)
   \<and> (prop_of p1 ''id'' \<noteq> prop_of p2 ''id''
        \<longrightarrow> \<not> is_edit_form (render_row (startEditing p2 s) p1))
   \<and> (distinct (map (\<lambda>p. prop_of p ''id'') (prompts s)) \<and> p2 \<in> set (prompts s)
        \<longrightarrow> filter (\<lambda>p. is_edit_form (render_row (startEditing p2 s) p))
              (prompts (startEditing p2 s)) = [p2])"
proof -
  have "filter (\<lambda>p. is_edit_form (render_row (startEditing p2 s) p))
              (prompts (startEditing p2 s)) = [p2]"
    if "distinct (map (\<lambda>p. prop_of p ''id'') (prompts s))" and "p2 \<in> set (prompts s)"
    using filter_eq_single [OF that] by (simp add: is_edit_form_iff startEditing_def)
  then show ?thesis
    by (auto simp: is_edit_form_iff startEditing_def)
qed

theorem single_editing_overlay_witness:
  "is_edit_form (render_row editing_example (toPrompt doc_p1))
   \<and> \<not> is_edit_form (render_row editing_example (toPrompt doc_p3))
   \<and> editingPromptId (startEditing (toPrompt doc_p3) editing_example) = JString ''p3''
   \<and> editingPromptText (startEditing (toPrompt doc_p3) editing_example) = JString ''third''
   \<and> \<not> is_edit_form (render_row (startEditing (toPrompt doc_p3) editing_example) (toPrompt doc_p1))
   \<and> filter (\<lambda>p. is_edit_form (render_row (startEditing (toPrompt doc_p3) editing_example) p))
       (prompts (startEditing (toPrompt doc_p3) editing_example)) = [toPrompt doc_p3]"
proof -
  have ids: "prop_of (toPrompt doc_p1) ''id'' \<noteq> prop_of (toPrompt doc_p3) ''id''"
    and p3: "prop_of (toPrompt doc_p3) ''id'' = JString ''p3''"
      "prop_of (toPrompt doc_p3) ''text'' = JString ''third''"
    by (simp_all add: doc_p1_def doc_p3_def toPrompt_def prop_of_def)
  have before: "is_edit_form (render_row editing_example (toPrompt doc_p1))"
    by (simp add: editing_example_eq loaded_example_eq render_row_def doc_p1_def toPrompt_def
        prop_of_def)
  have list: "distinct (map (\<lambda>p. prop_of p ''id'') (prompts editing_example))
      \<and> toPrompt doc_p3 \<in> set (prompts editing_example)"
    by (simp add: editing_example_eq loaded_example_eq doc_p3_def toPrompt_def prop_of_def)
  have shown: "toPrompt doc_p1 \<in> set (prompts editing_example)"
    by (simp add: editing_example_eq loaded_example_eq doc_p1_def toPrompt_def)
  note inst = single_editing_overlay [of editing_example "toPrompt doc_p3" "toPrompt doc_p1"]
  from inst shown list before ids
  have other: "\<not> is_edit_form (render_row editing_example (toPrompt doc_p3))"
    by blast
  from inst ids p3 before list other show ?thesis by simp
qed

section \<open>Cancelling an edit\<close>

lemma step_keeps_draft:
  "\<not> sets_draft e \<Longrightarrow> editingPromptText (step cfg e s) = editingPromptText s"
  by (cases e)
    (auto simp: program_defs Let_def split: option.splits outcome.splits sum.splits jsval.splits)

lemma run_keeps_draft:
  "\<forall>e\<in>set es. \<not> sets_draft e \<Longrightarrow> editingPromptText (run cfg es s) = editingPromptText s"
  unfolding run_def by (induction es arbitrary: s) (auto simp: step_keeps_draft)

text \<open>
  C10, as stated: cancelling sets only the editing id to null and leaves the draft; a
  successful update clears both; the stale draft is only replaced by the next startEdit.

  The last part fails when an update is still in flight. The user saves the draft of \<open>p1\<close>
  (the request is sent), cancels before the answer (the editing id is null, the draft is
  still there), and then the update succeeds: its continuation sets the draft to the
  empty string, and no startEdit has run.
\<close>

theorem stale_draft_counterexample:
  "snd (handleUpdatePrompt_call cfg0 editing_example)
     = Some (UpdateDoc ''/artifacts/default-app-id/users/u1/prompts/p1''
               [(''text'', JString ''draft'')])
   \<and> editingPromptId (run cfg0 [UpdatePromptCall, CancelEditing] editing_example) = JNull
   \<and> editingPromptText (run cfg0 [UpdatePromptCall, CancelEditing] editing_example)
       = JString ''draft''
   \<and> editingPromptText
       (run cfg0 [UpdatePromptCall, CancelEditing, UpdatePromptSettled Resolved] editing_example)
       = JString []"
  by (simp add: editing_example_eq loaded_example_eq cfg0_def run_def program_defs)

text \<open>
  C10, amended: cancelling sets only the editing id to null and leaves the draft; a
  successful update clears both; after a cancel the draft stays through every run of events
  other than the three that set it, which are startEdit (it replaces the draft by the
  committed text of its prompt), input into the text area of an edit form, and the
  successful end of an update request.
\<close>

theorem cancel_keeps_draft:
  "editingPromptId (cancelEditing s) = JNull
   \<and> editingPromptText (cancelEditing s) = editingPromptText s
   \<and> (cancelEditing s)\<lparr>editingPromptId := editingPromptId s\<rparr> = s
   \<and> editingPromptId (handleUpdatePrompt_settled Resolved s) = JNull
   \<and> editingPromptText (handleUpdatePrompt_settled Resolved s) = JString []
   \<and> editingPromptText (startEditing p s) = prop_of p ''text''
   \<and> ((\<forall>e\<in>set es. \<not> sets_draft e)
        \<longrightarrow> editingPromptText (run cfg es (cancelEditing s)) = editingPromptText s
          \<and> editingPromptText (run cfg (es @ [StartEditing p]) (cancelEditing s))
              = prop_of p ''text'')"
proof -
  have "editingPromptText (run cfg es (cancelEditing s)) = editingPromptText s
      \<and> editingPromptText (run cfg (es @ [StartEditing p]) (cancelEditing s)) = prop_of p ''text''"
    if "\<forall>e\<in>set es. \<not> sets_draft e"
    using run_keeps_draft [OF that, of cfg "cancelEditing s"]
    by (simp add: run_def cancelEditing_def startEditing_def)
  then show ?thesis
    by (simp add: cancelEditing_def handleUpdatePrompt_settled_def startEditing_def)
qed

theorem cancel_keeps_draft_witness:
  "editingPromptId (cancelEditing editing_example) = JNull
   \<and> editingPromptText (cancelEditing editing_example) = JString ''draft''
   \<and> editingPromptText
       (run cfg0 [NewPromptInput ''next'', SnapshotNext [doc_p1], DeletePromptCall (JString ''p1'')]
          (cancelEditing editing_example)) = JString ''draft''
   \<and> editingPromptText
       (run cfg0 ([NewPromptInput ''next'', SnapshotNext [doc_p1], DeletePromptCall (JString ''p1'')]
                   @ [StartEditing (toPrompt doc_p3)])
          (cancelEditing editing_example)) = JString ''third''"
proof -
  have quiet: "\<forall>e\<in>set [NewPromptInput ''next'', SnapshotNext [doc_p1],
      DeletePromptCall (JString ''p1'')]. \<not> sets_draft e"
    by simp
  have draft: "editingPromptText editing_example = JString ''draft''"
    by (simp add: editing_example_eq)
  have p3: "prop_of (toPrompt doc_p3) ''text'' = JString ''third''"
    by (simp add: doc_p3_def toPrompt_def prop_of_def)
  from cancel_keeps_draft [of editing_example "toPrompt doc_p3"
      "[NewPromptInput ''next'', SnapshotNext [doc_p1], DeletePromptCall (JString ''p1'')]" cfg0]
    quiet draft p3
  show ?thesis by simp
qed

section \<open>The sort returns a permutation\<close>

lemma mset_js_insort: "js_insort cmp x ys = Inr zs \<Longrightarrow> mset zs = add_mset x (mset ys)"
  by (induction ys arbitrary: zs) (auto split: sum.splits if_splits)

lemma mset_js_sort: "js_sort cmp xs = Inr ys \<Longrightarrow> mset ys = mset xs"
  by (induction xs arbitrary: ys) (auto split: sum.splits dest: mset_js_insort)

lemma js_insort_returns:
  "\<forall>y\<in>set ys. \<exists>v. cmp x y = Inr v \<Longrightarrow> \<exists>zs. js_insort cmp x ys = Inr zs"
  by (induction ys) (auto split: sum.splits)

lemma js_sort_returns:
  "\<forall>x\<in>set xs. \<forall>y\<in>set xs. \<exists>v. cmp x y = Inr v \<Longrightarrow> \<exists>ys. js_sort cmp xs = Inr ys"
proof (induction xs)
  case Nil
  then show ?case by simp
next
  case (Cons x xs)
  then obtain ys where ys: "js_sort cmp xs = Inr ys" by auto
  then have "set ys = set xs" by (metis mset_js_sort set_mset_mset)
  with Cons.prems have "\<forall>y\<in>set ys. \<exists>v. cmp x y = Inr v" by simp
  then have "\<exists>zs. js_insort cmp x ys = Inr zs" by (rule js_insort_returns)
  then obtain zs where "js_insort cmp x ys = Inr zs" by blast
  with ys show ?case by simp
qed

lemma compare_typed:
  "createdAt_typed a \<Longrightarrow> createdAt_typed b \<Longrightarrow> \<exists>v. compareCreatedAt a b = Inr v"
  by (auto simp: createdAt_typed_def compareCreatedAt_def split: jsval.splits)

lemma snapshot_of_typed:
  assumes "\<forall>d\<in>set docs. createdAt_typed (toPrompt d)"
  shows "\<exists>ps. js_sort compareCreatedAt (map toPrompt docs) = Inr ps
           \<and> mset ps = mset (map toPrompt docs)
           \<and> onSnapshot_next docs s = s\<lparr>prompts := ps, isLoading := False\<rparr>"
proof -
  from assms have "\<forall>x\<in>set (map toPrompt docs). \<forall>y\<in>set (map toPrompt docs).
      \<exists>v. compareCreatedAt x y = Inr v"
    by (auto intro: compare_typed)
  then have "\<exists>ps. js_sort compareCreatedAt (map toPrompt docs) = Inr ps"
    by (rule js_sort_returns)
  then obtain ps where ps: "js_sort compareCreatedAt (map toPrompt docs) = Inr ps"
    by blast
  then show ?thesis by (auto simp: onSnapshot_next_def dest: mset_js_sort)
qed

section \<open>The loading signal\<close>

lemma run_append: "run cfg (es @ es') s = run cfg es' (run cfg es s)"
  by (simp add: run_def)

lemma run_Cons: "run cfg (e # es) s = run cfg es (step cfg e s)"
  by (simp add: run_def)

lemma step_keeps_loading: "isLoading s \<Longrightarrow> \<not> ends_loading e \<Longrightarrow> isLoading (step cfg e s)"
  by (cases e)
    (auto simp: program_defs Let_def split: option.splits outcome.splits sum.splits jsval.splits)

lemma run_keeps_loading:
  "isLoading s \<Longrightarrow> \<forall>e\<in>set es. \<not> ends_loading e \<Longrightarrow> isLoading (run cfg es s)"
  unfolding run_def by (induction es arbitrary: s) (auto simp: step_keeps_loading)

lemma step_keeps_loaded:
  "\<not> isLoading s \<Longrightarrow> e \<noteq> SubscriptionEffect \<Longrightarrow> \<not> isLoading (step cfg e s)"
  by (cases e)
    (auto simp: program_defs Let_def split: option.splits outcome.splits sum.splits jsval.splits)

lemma run_keeps_loaded:
  "\<not> isLoading s \<Longrightarrow> \<forall>e\<in>set es. e \<noteq> SubscriptionEffect \<Longrightarrow> \<not> isLoading (run cfg es s)"
  unfolding run_def by (induction es arbitrary: s) (auto simp: step_keeps_loaded)

text \<open>
  C7: the loading signal is true in the initial state and still true when the
  initialisation and the sign-in have given a store handle and an identity; with them
  the subscription effect opens the subscription and sets it, and without an error the
  loading view is on screen; it stays true through all
  events \<open>es1\<close> up to the first snapshot (none of them being a snapshot, a subscription
  error or the initialisation); the snapshot sets it to false, also when the collection is
  empty, where the list is empty too; and it stays false through all events \<open>es2\<close> after
  that, until the subscription effect runs again. The documents of the snapshot carry a
  timestamp or no \<^verbatim>\<open>createdAt\<close>, as the data model has it.
\<close>

theorem loading_signal:
  assumes "db s = Some h" and "userId s = Some u" and "u \<noteq> []"
    and "\<forall>e\<in>set es1. \<not> ends_loading e"
    and "\<forall>d\<in>set docs. createdAt_typed (toPrompt d)"
    and "\<forall>e\<in>set es2. e \<noteq> SubscriptionEffect"
  shows "isLoading initial_state
    \<and> (firebase_config_defined cfg \<longrightarrow>
          isLoading (run cfg [InitEffect Resolved h, AuthStateChanged (Some u) r] initial_state)
        \<and> db (run cfg [InitEffect Resolved h, AuthStateChanged (Some u) r] initial_state) = Some h
        \<and> userId (run cfg [InitEffect Resolved h, AuthStateChanged (Some u) r] initial_state)
            = Some u)
    \<and> snd (subscription_effect cfg s) = Some (Subscribe (collectionPath cfg (Some u)))
    \<and> isLoading (run cfg [SubscriptionEffect] s)
    \<and> (js_not_str (error s) \<longrightarrow> render (run cfg [SubscriptionEffect] s) = LoadingView)
    \<and> isLoading (run cfg (SubscriptionEffect # es1) s)
    \<and> \<not> isLoading (run cfg (SubscriptionEffect # es1 @ [SnapshotNext docs]) s)
    \<and> \<not> isLoading (run cfg (SubscriptionEffect # es1 @ SnapshotNext docs # es2) s)
    \<and> (docs = [] \<longrightarrow> prompts (run cfg (SubscriptionEffect # es1 @ [SnapshotNext docs]) s) = [])"
proof -
  let ?s1 = "step cfg SubscriptionEffect s"
  let ?s2 = "run cfg es1 ?s1"
  let ?s3 = "onSnapshot_next docs ?s2"
  have sub: "snd (subscription_effect cfg s) = Some (Subscribe (collectionPath cfg (Some u)))"
    and s1: "isLoading ?s1"
    using assms(1-3) by (simp_all add: subscription_effect_def)
  from s1 assms(4) have s2: "isLoading ?s2" by (rule run_keeps_loading)
  from snapshot_of_typed [OF assms(5), of ?s2]
  have s3: "\<not> isLoading ?s3" and empty: "docs = [] \<longrightarrow> prompts ?s3 = []"
    by auto
  from s3 assms(6) have s4: "\<not> isLoading (run cfg es2 ?s3)" by (rule run_keeps_loaded)
  have view: "js_not_str (error s) \<longrightarrow> render ?s1 = LoadingView"
    using assms(1-3) by (simp add: subscription_effect_def render_def)
  have start: "isLoading initial_state" by (simp add: initial_state_def)
  have established: "firebase_config_defined cfg \<longrightarrow>
          isLoading (run cfg [InitEffect Resolved h, AuthStateChanged (Some u) r] initial_state)
        \<and> db (run cfg [InitEffect Resolved h, AuthStateChanged (Some u) r] initial_state) = Some h
        \<and> userId (run cfg [InitEffect Resolved h, AuthStateChanged (Some u) r] initial_state)
            = Some u"
    by (simp add: run_def initial_state_def init_effect_def onAuthStateChanged_def)
  have s1': "isLoading (run cfg [SubscriptionEffect] s)"
    and view': "js_not_str (error s) \<longrightarrow> render (run cfg [SubscriptionEffect] s) = LoadingView"
    and s2': "isLoading (run cfg (SubscriptionEffect # es1) s)"
    and s3': "\<not> isLoading (run cfg (SubscriptionEffect # es1 @ [SnapshotNext docs]) s)"
    and s4': "\<not> isLoading (run cfg (SubscriptionEffect # es1 @ SnapshotNext docs # es2) s)"
    and empty': "docs = [] \<longrightarrow>
      prompts (run cfg (SubscriptionEffect # es1 @ [SnapshotNext docs]) s) = []"
    using s1 view s2 s3 s4 empty by (simp_all add: run_Cons run_append) (simp_all add: run_def)
  from start established sub s1' view' s2' s3' s4' empty' show ?thesis by blast
qed

theorem loading_signal_witness:
  "isLoading (run cfg0 [InitEffect Resolved 0, AuthStateChanged (Some ''u1'') Resolved]
                initial_state)
   \<and> isLoading (run cfg0 [SubscriptionEffect] subscribed_example)
   \<and> render (run cfg0 [SubscriptionEffect] subscribed_example) = LoadingView
   \<and> isLoading (run cfg0 (SubscriptionEffect # [AuthStateChanged (Some ''u1'') Resolved])
                  subscribed_example)
   \<and> \<not> isLoading (run cfg0 (SubscriptionEffect # [AuthStateChanged (Some ''u1'') Resolved]
                          @ [SnapshotNext []]) subscribed_example)
   \<and> prompts (run cfg0 (SubscriptionEffect # [AuthStateChanged (Some ''u1'') Resolved]
                          @ [SnapshotNext []]) subscribed_example) = []
   \<and> \<not> isLoading (run cfg0 (SubscriptionEffect # [AuthStateChanged (Some ''u1'') Resolved]
                          @ SnapshotNext [doc_p1, doc_p2]
                          # [NewPromptInput ''hello'', AddPromptCall 5, SnapshotNext []])
                      subscribed_example)"
proof -
  have ready: "db subscribed_example = Some 0" "userId subscribed_example = Some ''u1''"
      "''u1'' \<noteq> []"
    by (simp_all add: example_defs program_defs)
  have before: "\<forall>e\<in>set [AuthStateChanged (Some ''u1'') Resolved]. \<not> ends_loading e"
    by simp
  have none: "\<forall>d\<in>set ([] :: doc list). createdAt_typed (toPrompt d)"
    by simp
  have typed: "\<forall>d\<in>set [doc_p1, doc_p2]. createdAt_typed (toPrompt d)"
    by (simp add: doc_p1_def doc_p2_def toPrompt_def createdAt_typed_def prop_of_def)
  have after: "\<forall>e\<in>set [NewPromptInput ''hello'', AddPromptCall 5, SnapshotNext []].
      e \<noteq> SubscriptionEffect"
    by simp
  have config: "firebase_config_defined cfg0"
    by (simp add: cfg0_def)
  have fine: "js_not_str (error subscribed_example)"
    by (simp add: example_defs program_defs)
  from loading_signal [OF ready before none after, where cfg = cfg0 and r = Resolved]
    loading_signal [OF ready before typed after, where cfg = cfg0 and r = Resolved]
    config fine
  show ?thesis by simp
qed

section \<open>Paths\<close>

lemma split_slash_not_Nil: "split_slash p \<noteq> []"
  by (induction p) (auto split: list.splits)

lemma split_slash_append: "split_slash (a @ CHR ''/'' # b) = split_slash a @ split_slash b"
proof (induction a)
  case Nil
  then show ?case by simp
next
  case (Cons c cs)
  obtain seg segs where "split_slash cs = seg # segs"
    using split_slash_not_Nil [of cs] by (cases "split_slash cs") auto
  with Cons show ?case by simp
qed

lemma path_segments_append:
  "path_segments (a @ CHR ''/'' # b) = path_segments a @ path_segments b"
  by (simp add: path_segments_def split_slash_append)

lemma path_segments_leading_slash: "path_segments (CHR ''/'' # p) = path_segments p"
  by (simp add: path_segments_def)

lemma docPath_eq:
  "docPath cfg uid promptId = collectionPath cfg uid @ CHR ''/'' # js_toString promptId"
  by (simp add: docPath_def collectionPath_def)

text \<open>
  C8: for every identity \<open>u\<close> and configuration, with a store handle and a non-empty
  identity the subscription effect subscribes to the collection path; a create with
  non-blank text inserts into it; a delete with an id and an update with an id and a
  non-blank draft address the document of that id below it. Whatever request one of them
  returns goes there, and without a store handle or without an identity none of them
  returns a request. The string handed to the SDK is
  \<^verbatim>\<open>artifacts/{appId}/users/{userId}/prompts\<close> behind a leading slash, which has the same
  segments; \<open>appId\<close> is \<^verbatim>\<open>__app_id\<close> when that is defined and \<^verbatim>\<open>default-app-id\<close>
  otherwise.
\<close>

theorem requests_address_user_collection:
  "collectionPath cfg (Some u) = CHR ''/'' # spec_collection_path (appId cfg) u
   \<and> path_segments (collectionPath cfg (Some u)) = path_segments (spec_collection_path (appId cfg) u)
   \<and> (app_id cfg = None \<longrightarrow> appId cfg = ''default-app-id'')
   \<and> (app_id cfg = Some a \<longrightarrow> appId cfg = a)
   \<and> (db s = Some h \<and> userId s = Some u \<and> u \<noteq> [] \<longrightarrow>
        snd (subscription_effect cfg s) = Some (Subscribe (collectionPath cfg (Some u)))
      \<and> (js_trim (newPrompt s) \<noteq> [] \<longrightarrow>
            snd (handleAddPrompt_call cfg now s)
              = Some (AddDoc (collectionPath cfg (Some u))
                        [(''text'', JString (newPrompt s)), (''createdAt'', JTimestamp now)]))
      \<and> (\<not> js_not promptId \<longrightarrow>
            snd (handleDeletePrompt_call cfg promptId s)
              = Some (DeleteDoc (collectionPath cfg (Some u) @ CHR ''/'' # js_toString promptId))
          \<and> path_segments (collectionPath cfg (Some u) @ CHR ''/'' # js_toString promptId)
              = path_segments (spec_collection_path (appId cfg) u)
                @ path_segments (js_toString promptId))
      \<and> (editingPromptText s = JString t \<and> js_trim t \<noteq> [] \<and> \<not> js_not (editingPromptId s) \<longrightarrow>
            snd (handleUpdatePrompt_call cfg s)
              = Some (UpdateDoc
                        (collectionPath cfg (Some u) @ CHR ''/'' # js_toString (editingPromptId s))
                        [(''text'', JString t)])
          \<and> path_segments
                (collectionPath cfg (Some u) @ CHR ''/'' # js_toString (editingPromptId s))
              = path_segments (spec_collection_path (appId cfg) u)
                @ path_segments (js_toString (editingPromptId s))))
   \<and> (userId s = Some u \<longrightarrow>
        (\<forall>q. snd (subscription_effect cfg s) = Some q \<longrightarrow> q = Subscribe (collectionPath cfg (Some u)))
      \<and> (\<forall>q. snd (handleAddPrompt_call cfg now s) = Some q
              \<longrightarrow> request_path q = collectionPath cfg (Some u))
      \<and> (\<forall>q. snd (handleDeletePrompt_call cfg promptId s) = Some q
              \<longrightarrow> request_path q = collectionPath cfg (Some u) @ CHR ''/'' # js_toString promptId
                \<and> path_segments (request_path q)
                    = path_segments (spec_collection_path (appId cfg) u)
                      @ path_segments (js_toString promptId))
      \<and> (\<forall>q. snd (handleUpdatePrompt_call cfg s) = Some q
              \<longrightarrow> request_path q
                    = collectionPath cfg (Some u) @ CHR ''/'' # js_toString (editingPromptId s)
                \<and> path_segments (request_path q)
                    = path_segments (spec_collection_path (appId cfg) u)
                      @ path_segments (js_toString (editingPromptId s))))
   \<and> (js_not_handle (db s) \<or> js_not_str (userId s) \<longrightarrow>
        snd (subscription_effect cfg s) = None \<and> snd (handleAddPrompt_call cfg now s) = None
      \<and> snd (handleDeletePrompt_call cfg promptId s) = None
      \<and> snd (handleUpdatePrompt_call cfg s) = None)"
proof -
  have lit: "collectionPath cfg (Some u) = CHR ''/'' # spec_collection_path (appId cfg) u"
    by (simp add: collectionPath_def spec_collection_path_def)
  then have segs: "path_segments (collectionPath cfg (Some u))
      = path_segments (spec_collection_path (appId cfg) u)"
    by (simp add: path_segments_leading_slash)
  have below: "path_segments (collectionPath cfg (Some u) @ CHR ''/'' # x)
      = path_segments (spec_collection_path (appId cfg) u) @ path_segments x" for x
    by (simp only: path_segments_append segs)
  have absent: "app_id cfg = None \<longrightarrow> appId cfg = ''default-app-id''"
    and given: "app_id cfg = Some a \<longrightarrow> appId cfg = a"
    by (simp_all add: appId_def)
  have sends: "db s = Some h \<and> userId s = Some u \<and> u \<noteq> [] \<longrightarrow>
        snd (subscription_effect cfg s) = Some (Subscribe (collectionPath cfg (Some u)))
      \<and> (js_trim (newPrompt s) \<noteq> [] \<longrightarrow>
            snd (handleAddPrompt_call cfg now s)
              = Some (AddDoc (collectionPath cfg (Some u))
                        [(''text'', JString (newPrompt s)), (''createdAt'', JTimestamp now)]))
      \<and> (\<not> js_not promptId \<longrightarrow>
            snd (handleDeletePrompt_call cfg promptId s)
              = Some (DeleteDoc (collectionPath cfg (Some u) @ CHR ''/'' # js_toString promptId))
          \<and> path_segments (collectionPath cfg (Some u) @ CHR ''/'' # js_toString promptId)
              = path_segments (spec_collection_path (appId cfg) u)
                @ path_segments (js_toString promptId))
      \<and> (editingPromptText s = JString t \<and> js_trim t \<noteq> [] \<and> \<not> js_not (editingPromptId s) \<longrightarrow>
            snd (handleUpdatePrompt_call cfg s)
              = Some (UpdateDoc
                        (collectionPath cfg (Some u) @ CHR ''/'' # js_toString (editingPromptId s))
                        [(''text'', JString t)])
          \<and> path_segments
                (collectionPath cfg (Some u) @ CHR ''/'' # js_toString (editingPromptId s))
              = path_segments (spec_collection_path (appId cfg) u)
                @ path_segments (js_toString (editingPromptId s)))"
  proof (intro impI conjI)
    assume ready: "db s = Some h \<and> userId s = Some u \<and> u \<noteq> []"
    then show "snd (subscription_effect cfg s) = Some (Subscribe (collectionPath cfg (Some u)))"
      by (simp add: subscription_effect_def)
    show "path_segments (collectionPath cfg (Some u) @ CHR ''/'' # js_toString promptId)
        = path_segments (spec_collection_path (appId cfg) u) @ path_segments (js_toString promptId)"
      by (rule below)
    show "path_segments (collectionPath cfg (Some u) @ CHR ''/'' # js_toString (editingPromptId s))
        = path_segments (spec_collection_path (appId cfg) u)
          @ path_segments (js_toString (editingPromptId s))"
      by (rule below)
    {
      assume "js_trim (newPrompt s) \<noteq> []"
      with ready show "snd (handleAddPrompt_call cfg now s)
          = Some (AddDoc (collectionPath cfg (Some u))
                    [(''text'', JString (newPrompt s)), (''createdAt'', JTimestamp now)])"
        by (simp add: handleAddPrompt_call_def)
    }
    {
      assume "\<not> js_not promptId"
      with ready show "snd (handleDeletePrompt_call cfg promptId s)
          = Some (DeleteDoc (collectionPath cfg (Some u) @ CHR ''/'' # js_toString promptId))"
        by (simp add: handleDeletePrompt_call_def docPath_eq)
    }
    {
      assume "editingPromptText s = JString t \<and> js_trim t \<noteq> [] \<and> \<not> js_not (editingPromptId s)"
      with ready show "snd (handleUpdatePrompt_call cfg s)
          = Some (UpdateDoc
                    (collectionPath cfg (Some u) @ CHR ''/'' # js_toString (editingPromptId s))
                    [(''text'', JString t)])"
        by (simp add: handleUpdatePrompt_call_def docPath_eq)
    }
  qed
  have only: "userId s = Some u \<longrightarrow>
        (\<forall>q. snd (subscription_effect cfg s) = Some q \<longrightarrow> q = Subscribe (collectionPath cfg (Some u)))
      \<and> (\<forall>q. snd (handleAddPrompt_call cfg now s) = Some q
              \<longrightarrow> request_path q = collectionPath cfg (Some u))
      \<and> (\<forall>q. snd (handleDeletePrompt_call cfg promptId s) = Some q
              \<longrightarrow> request_path q = collectionPath cfg (Some u) @ CHR ''/'' # js_toString promptId
                \<and> path_segments (request_path q)
                    = path_segments (spec_collection_path (appId cfg) u)
                      @ path_segments (js_toString promptId))
      \<and> (\<forall>q. snd (handleUpdatePrompt_call cfg s) = Some q
              \<longrightarrow> request_path q
                    = collectionPath cfg (Some u) @ CHR ''/'' # js_toString (editingPromptId s)
                \<and> path_segments (request_path q)
                    = path_segments (spec_collection_path (appId cfg) u)
                      @ path_segments (js_toString (editingPromptId s)))"
  proof (intro impI conjI)
    assume user: "userId s = Some u"
    then show "\<forall>q. snd (subscription_effect cfg s) = Some q
        \<longrightarrow> q = Subscribe (collectionPath cfg (Some u))"
      by (auto simp: subscription_effect_def split: if_splits)
    from user show "\<forall>q. snd (handleAddPrompt_call cfg now s) = Some q
        \<longrightarrow> request_path q = collectionPath cfg (Some u)"
      by (auto simp: handleAddPrompt_call_def split: if_splits)
    from user show "\<forall>q. snd (handleDeletePrompt_call cfg promptId s) = Some q
        \<longrightarrow> request_path q = collectionPath cfg (Some u) @ CHR ''/'' # js_toString promptId
          \<and> path_segments (request_path q)
              = path_segments (spec_collection_path (appId cfg) u)
                @ path_segments (js_toString promptId)"
      by (auto simp: handleDeletePrompt_call_def docPath_eq below split: if_splits)
    from user show "\<forall>q. snd (handleUpdatePrompt_call cfg s) = Some q
        \<longrightarrow> request_path q
              = collectionPath cfg (Some u) @ CHR ''/'' # js_toString (editingPromptId s)
          \<and> path_segments (request_path q)
              = path_segments (spec_collection_path (appId cfg) u)
                @ path_segments (js_toString (editingPromptId s))"
      by (auto simp: handleUpdatePrompt_call_def docPath_eq below split: if_splits jsval.splits)
  qed
  have none: "js_not_handle (db s) \<or> js_not_str (userId s) \<longrightarrow>
        snd (subscription_effect cfg s) = None \<and> snd (handleAddPrompt_call cfg now s) = None
      \<and> snd (handleDeletePrompt_call cfg promptId s) = None
      \<and> snd (handleUpdatePrompt_call cfg s) = None"
    by (auto simp: subscription_effect_def handleAddPrompt_call_def handleDeletePrompt_call_def
        handleUpdatePrompt_call_def split: jsval.splits)
  show ?thesis
    by (intro conjI) (rule lit segs absent given sends only none)+
qed

theorem requests_address_user_collection_witness:
  "collectionPath cfg0 (Some ''u1'') = ''/artifacts/default-app-id/users/u1/prompts''
   \<and> collectionPath cfg1 (Some ''u1'') = ''/artifacts/my-app/users/u1/prompts''
   \<and> path_segments (collectionPath cfg1 (Some ''u1''))
       = [''artifacts'', ''my-app'', ''users'', ''u1'', ''prompts'']
   \<and> snd (subscription_effect cfg1 editing_example)
       = Some (Subscribe ''/artifacts/my-app/users/u1/prompts'')
   \<and> snd (handleAddPrompt_call cfg1 9 (editing_example\<lparr>newPrompt := ''new one''\<rparr>))
       = Some (AddDoc ''/artifacts/my-app/users/u1/prompts''
                 [(''text'', JString ''new one''), (''createdAt'', JTimestamp 9)])
   \<and> snd (handleDeletePrompt_call cfg1 (JString ''p3'') editing_example)
       = Some (DeleteDoc ''/artifacts/my-app/users/u1/prompts/p3'')
   \<and> path_segments ''/artifacts/my-app/users/u1/prompts/p3''
       = [''artifacts'', ''my-app'', ''users'', ''u1'', ''prompts'', ''p3'']
   \<and> snd (handleUpdatePrompt_call cfg1 editing_example)
       = Some (UpdateDoc ''/artifacts/my-app/users/u1/prompts/p1'' [(''text'', JString ''draft'')])
   \<and> path_segments ''/artifacts/my-app/users/u1/prompts/p1''
       = [''artifacts'', ''my-app'', ''users'', ''u1'', ''prompts'', ''p1'']
   \<and> snd (handleAddPrompt_call cfg1 9 (initial_state\<lparr>newPrompt := ''early''\<rparr>)) = None
   \<and> snd (handleDeletePrompt_call cfg1 (JString ''p3'') (initial_state\<lparr>newPrompt := ''early''\<rparr>))
       = None"
proof -
  let ?typing = "editing_example\<lparr>newPrompt := ''new one''\<rparr>"
  let ?early = "initial_state\<lparr>newPrompt := ''early''\<rparr>"
  note at0 = requests_address_user_collection
    [where cfg = cfg0 and u = "''u1''" and s = editing_example]
  note at1 = requests_address_user_collection
    [where cfg = cfg1 and u = "''u1''" and a = "''my-app''" and s = editing_example
       and h = 0 and promptId = "JString ''p3''" and t = "''draft''"]
  note typing = requests_address_user_collection
    [where cfg = cfg1 and u = "''u1''" and s = ?typing and h = 0 and now = 9]
  note early = requests_address_user_collection
    [where cfg = cfg1 and s = ?early and now = 9 and promptId = "JString ''p3''"]
  have absent: "app_id cfg0 = None" and given: "app_id cfg1 = Some ''my-app''"
    by (simp_all add: cfg0_def cfg1_def)
  have ready: "db editing_example = Some 0 \<and> userId editing_example = Some ''u1'' \<and> ''u1'' \<noteq> []"
    and ready': "db ?typing = Some 0 \<and> userId ?typing = Some ''u1'' \<and> ''u1'' \<noteq> []"
    by (simp_all add: editing_example_eq loaded_example_eq)
  have typed: "js_trim (newPrompt ?typing) \<noteq> []" and buffer: "newPrompt ?typing = ''new one''"
    by (simp_all add: js_trim_def js_whitespace_def)
  have named: "\<not> js_not (JString ''p3'')"
    by simp
  have editing: "editingPromptText editing_example = JString ''draft'' \<and> js_trim ''draft'' \<noteq> []
      \<and> \<not> js_not (editingPromptId editing_example)"
    and target: "editingPromptId editing_example = JString ''p1''"
    by (simp_all add: editing_example_eq js_trim_def js_whitespace_def)
  have nobody: "js_not_handle (db ?early) \<or> js_not_str (userId ?early)"
    by (simp add: initial_state_def)
  have segs: "path_segments ''artifacts/my-app/users/u1/prompts''
       = [''artifacts'', ''my-app'', ''users'', ''u1'', ''prompts'']"
    "path_segments ''p3'' = [''p3'']" "path_segments ''p1'' = [''p1'']"
    by (simp_all add: path_segments_def)
  from at0 absent have app0: "appId cfg0 = ''default-app-id''" by blast
  from at1 given have app1: "appId cfg1 = ''my-app''" by blast
  from at0 have "collectionPath cfg0 (Some ''u1'')
      = CHR ''/'' # spec_collection_path (appId cfg0) ''u1''" by blast
  then have c0: "collectionPath cfg0 (Some ''u1'') = ''/artifacts/default-app-id/users/u1/prompts''"
    by (simp add: app0 spec_collection_path_def)
  from at1 have "collectionPath cfg1 (Some ''u1'')
      = CHR ''/'' # spec_collection_path (appId cfg1) ''u1''" by blast
  then have c1: "collectionPath cfg1 (Some ''u1'') = ''/artifacts/my-app/users/u1/prompts''"
    by (simp add: app1 spec_collection_path_def)
  have spec1: "spec_collection_path (appId cfg1) ''u1'' = ''artifacts/my-app/users/u1/prompts''"
    by (simp add: app1 spec_collection_path_def)
  from at1 have "path_segments (collectionPath cfg1 (Some ''u1''))
      = path_segments (spec_collection_path (appId cfg1) ''u1'')" by blast
  then have c2: "path_segments (collectionPath cfg1 (Some ''u1''))
      = [''artifacts'', ''my-app'', ''users'', ''u1'', ''prompts'']"
    by (simp only: spec1 segs)
  from at1 ready have "snd (subscription_effect cfg1 editing_example)
      = Some (Subscribe (collectionPath cfg1 (Some ''u1'')))" by blast
  then have c3: "snd (subscription_effect cfg1 editing_example)
      = Some (Subscribe ''/artifacts/my-app/users/u1/prompts'')"
    by (simp only: c1)
  from typing ready' typed have "snd (handleAddPrompt_call cfg1 9 ?typing)
      = Some (AddDoc (collectionPath cfg1 (Some ''u1''))
                [(''text'', JString (newPrompt ?typing)), (''createdAt'', JTimestamp 9)])"
    by blast
  then have c4: "snd (handleAddPrompt_call cfg1 9 ?typing)
      = Some (AddDoc ''/artifacts/my-app/users/u1/prompts''
                [(''text'', JString ''new one''), (''createdAt'', JTimestamp 9)])"
    by (simp only: c1 buffer)
  from at1 ready named
  have "snd (handleDeletePrompt_call cfg1 (JString ''p3'') editing_example)
        = Some (DeleteDoc (collectionPath cfg1 (Some ''u1'') @ CHR ''/'' # js_toString (JString ''p3'')))
      \<and> path_segments (collectionPath cfg1 (Some ''u1'') @ CHR ''/'' # js_toString (JString ''p3''))
        = path_segments (spec_collection_path (appId cfg1) ''u1'')
          @ path_segments (js_toString (JString ''p3''))"
    by blast
  then have c5: "snd (handleDeletePrompt_call cfg1 (JString ''p3'') editing_example)
        = Some (DeleteDoc ''/artifacts/my-app/users/u1/prompts/p3'')"
    and c6: "path_segments ''/artifacts/my-app/users/u1/prompts/p3''
        = [''artifacts'', ''my-app'', ''users'', ''u1'', ''prompts'', ''p3'']"
    by (simp_all add: c1 spec1 segs)
  from at1 ready editing
  have "snd (handleUpdatePrompt_call cfg1 editing_example)
        = Some (UpdateDoc
                  (collectionPath cfg1 (Some ''u1'')
                     @ CHR ''/'' # js_toString (editingPromptId editing_example))
                  [(''text'', JString ''draft'')])
      \<and> path_segments (collectionPath cfg1 (Some ''u1'')
                          @ CHR ''/'' # js_toString (editingPromptId editing_example))
        = path_segments (spec_collection_path (appId cfg1) ''u1'')
          @ path_segments (js_toString (editingPromptId editing_example))"
    by blast
  then have c7: "snd (handleUpdatePrompt_call cfg1 editing_example)
        = Some (UpdateDoc ''/artifacts/my-app/users/u1/prompts/p1'' [(''text'', JString ''draft'')])"
    and c8: "path_segments ''/artifacts/my-app/users/u1/prompts/p1''
        = [''artifacts'', ''my-app'', ''users'', ''u1'', ''prompts'', ''p1'']"
    by (simp_all add: c1 spec1 segs target)
  from early nobody
  have c9: "snd (handleAddPrompt_call cfg1 9 ?early) = None"
    and c10: "snd (handleDeletePrompt_call cfg1 (JString ''p3'') ?early) = None"
    by blast+
  from c0 c1 c2 c3 c4 c5 c6 c7 c8 c9 c10 show ?thesis by blast
qed

section \<open>The mapping of a snapshot\<close>

lemma map_of_fold_update:
  "map_of (fold (\<lambda>(k, v). AList.update k v) kvs al) = map_of al ++ map_of (rev kvs)"
  by (induction kvs arbitrary: al) (auto simp: update_conv')

lemma map_of_rev_distinct: "distinct (map fst kvs) \<Longrightarrow> map_of (rev kvs) = map_of kvs"
  by (rule map_of_inject_set [THEN iffD2]) (simp_all add: distinct_rev rev_map [symmetric])

lemma prop_of_toPrompt:
  assumes "distinct (map fst data)"
  shows "prop_of (toPrompt (d, data)) k =
     (case map_of data k of
        Some v \<Rightarrow> v
      | None \<Rightarrow> if k = ''id'' then JString d else JUndefined)"
  using assms
  by (simp add: prop_of_def toPrompt_def map_of_fold_update map_of_rev_distinct map_add_def
      split: option.splits)



section \<open>The order of the presented list\<close>

lemma stamped_compare:
  assumes "createdAt_stamped a" and "createdAt_stamped b"
  shows "\<exists>x y. prop_of a ''createdAt'' = JTimestamp x \<and> prop_of b ''createdAt'' = JTimestamp y
           \<and> compareCreatedAt a b = Inr (Num (y - x)) \<and> (later_first a b \<longleftrightarrow> y \<le> x)"
  using assms
  by (auto simp: createdAt_stamped_def compareCreatedAt_def later_first_def split: jsval.splits)

lemma later_first_trans:
  "createdAt_stamped b \<Longrightarrow> later_first a b \<Longrightarrow> later_first b c \<Longrightarrow> later_first a c"
  by (auto simp: createdAt_stamped_def later_first_def split: jsval.splits)

lemma sorted_js_insort:
  assumes "createdAt_stamped x" and "\<forall>p\<in>set ys. createdAt_stamped p"
    and "sorted_wrt later_first ys" and "js_insort compareCreatedAt x ys = Inr zs"
  shows "sorted_wrt later_first zs"
  using assms
proof (induction ys arbitrary: zs)
  case Nil
  then show ?case by auto
next
  case (Cons y ys)
  from Cons.prems stamped_compare [of x y]
  obtain mx my where cmp: "compareCreatedAt x y = Inr (Num (my - mx))"
    and xy: "later_first x y \<longleftrightarrow> my \<le> mx"
    and mx: "prop_of x ''createdAt'' = JTimestamp mx"
    and my: "prop_of y ''createdAt'' = JTimestamp my"
    by auto
  show ?case
  proof (cases "0 < my - mx")
    case True
    with Cons.prems cmp obtain zs' where zs': "js_insort compareCreatedAt x ys = Inr zs'"
      and zs: "zs = y # zs'"
      by (auto split: sum.splits)
    from Cons.IH [OF _ _ _ zs'] Cons.prems have sorted: "sorted_wrt later_first zs'" by simp
    from zs' have "set zs' = insert x (set ys)"
      by (metis mset_js_insort set_mset_add_mset_insert set_mset_mset)
    moreover from True mx my have "later_first y x" by (simp add: later_first_def)
    ultimately show ?thesis using Cons.prems sorted zs by auto
  next
    case False
    with Cons.prems cmp have zs: "zs = x # y # ys" by auto
    from False xy have "later_first x y" by simp
    moreover have "later_first x z" if "z \<in> set ys" for z
      using \<open>later_first x y\<close> that Cons.prems later_first_trans [of y x z] by auto
    ultimately show ?thesis using Cons.prems zs by auto
  qed
qed

lemma sorted_js_sort:
  assumes "\<forall>p\<in>set xs. createdAt_stamped p" and "js_sort compareCreatedAt xs = Inr ys"
  shows "sorted_wrt later_first ys"
  using assms
proof (induction xs arbitrary: ys)
  case Nil
  then show ?case by simp
next
  case (Cons x xs)
  then obtain ys' where ys': "js_sort compareCreatedAt xs = Inr ys'"
    and ys: "js_insort compareCreatedAt x ys' = Inr ys"
    by (auto split: sum.splits)
  from ys' have "set ys' = set xs" by (metis mset_js_sort set_mset_mset)
  with Cons ys' ys show ?case by (auto intro: sorted_js_insort)
qed

lemma stamped_typed: "createdAt_stamped p \<Longrightarrow> createdAt_typed p"
  by (auto simp: createdAt_stamped_def createdAt_typed_def split: jsval.splits)

text \<open>
  When every document of the snapshot carries a timestamp, the new list holds exactly the
  prompts of the snapshot, whatever the list was before, in descending order of
  \<^verbatim>\<open>createdAt\<close>.
\<close>

lemma snapshot_sorted_when_stamped:
  assumes "\<forall>d\<in>set docs. createdAt_stamped (toPrompt d)"
  shows "createdAt_desc (prompts (onSnapshot_next docs s))
    \<and> mset (prompts (onSnapshot_next docs s)) = mset (map toPrompt docs)
    \<and> prompts (onSnapshot_next docs s) = prompts (onSnapshot_next docs s')"
proof -
  from assms have "\<forall>d\<in>set docs. createdAt_typed (toPrompt d)" by (simp add: stamped_typed)
  from snapshot_of_typed [OF this, of s] snapshot_of_typed [OF this, of s']
  obtain ps where ps: "js_sort compareCreatedAt (map toPrompt docs) = Inr ps"
    and "mset ps = mset (map toPrompt docs)"
    and "onSnapshot_next docs s = s\<lparr>prompts := ps, isLoading := False\<rparr>"
    and "onSnapshot_next docs s' = s'\<lparr>prompts := ps, isLoading := False\<rparr>"
    by auto
  moreover from assms ps have "sorted_wrt later_first ps"
    by (intro sorted_js_sort [of "map toPrompt docs"]) auto
  ultimately show ?thesis by (simp add: createdAt_desc_def)
qed

text \<open>
  C2: on every snapshot in a loaded state without error the list is replaced by the
  snapshot's documents and is sorted by \<^verbatim>\<open>createdAt\<close> descending, also when a document
  lacks \<^verbatim>\<open>createdAt\<close>.

  The code at a snapshot whose second document has no \<^verbatim>\<open>createdAt\<close>: the list is
  replaced, but every comparison with \<open>p2\<close> is \<^verbatim>\<open>NaN\<close>, which counts as equal, so \<open>p1\<close> and
  \<open>p3\<close> (whose comparison is positive: \<open>p1\<close> belongs behind \<open>p3\<close>) are never set against
  each other and the list keeps the order of the snapshot, with timestamp 1 ahead of
  timestamp 3.
\<close>

theorem snapshot_with_missing_createdAt_unsorted:
  "error loaded_example = None \<and> is_library (render loaded_example)
   \<and> map (\<lambda>d. prop_of (snd d) ''createdAt'') [doc_p1, doc_p2, doc_p3]
       = [JTimestamp 1, JUndefined, JTimestamp 3]
   \<and> compareCreatedAt (toPrompt doc_p2) (toPrompt doc_p3) = Inr NaN
   \<and> compareCreatedAt (toPrompt doc_p1) (toPrompt doc_p2) = Inr NaN
   \<and> compareCreatedAt (toPrompt doc_p1) (toPrompt doc_p3) = Inr (Num 2)
   \<and> prompts (onSnapshot_next [doc_p1, doc_p2, doc_p3] loaded_example)
       = [toPrompt doc_p1, toPrompt doc_p2, toPrompt doc_p3]
   \<and> map (\<lambda>p. prop_of p ''createdAt'')
         (prompts (onSnapshot_next [doc_p1, doc_p2, doc_p3] loaded_example))
       = [JTimestamp 1, JUndefined, JTimestamp 3]
   \<and> \<not> createdAt_desc (prompts (onSnapshot_next [doc_p1, doc_p2, doc_p3] loaded_example))"
  by (simp add: loaded_example_eq doc_p1_def doc_p2_def doc_p3_def onSnapshot_next_def
      toPrompt_def compareCreatedAt_def prop_of_def createdAt_desc_def later_first_def
      render_def)

section \<open>The effect of an update\<close>

lemma store_updateDoc_text:
  "store_updateDoc cpath docs (cpath @ CHR ''/'' # pid) [(''text'', v)] =
     (if pid \<in> fst ` set docs
      then (Resolved,
            map (\<lambda>d. if fst d = pid then (fst d, AList.update ''text'' v (snd d)) else d) docs)
      else (Rejected, docs))"
  by (auto simp: store_updateDoc_def image_iff)

lemma prop_of_updated:
  assumes "doc_wf d" and "map_of (snd d) ''id'' = None"
  shows "prop_of (toPrompt (fst d, AList.update ''text'' v (snd d))) k
           = (if k = ''text'' then v else prop_of (toPrompt d) k)"
proof -
  from assms(1) have "distinct (map fst (snd d))" by (simp add: doc_wf_def)
  moreover from this have "distinct (map fst (AList.update ''text'' v (snd d)))"
    by (rule distinct_update)
  ultimately show ?thesis
    using prop_of_toPrompt [of "AList.update ''text'' v (snd d)" "fst d" k]
      prop_of_toPrompt [of "snd d" "fst d" k]
    by (simp add: update_conv')
qed

lemma snapshot_shows_docs:
  assumes "\<forall>d\<in>set docs. createdAt_typed (toPrompt d)"
  shows "set (prompts (onSnapshot_next docs s)) = toPrompt ` set docs"
proof -
  from snapshot_of_typed [OF assms, of s]
  obtain ps where "mset ps = mset (map toPrompt docs)"
    and shown: "onSnapshot_next docs s = s\<lparr>prompts := ps, isLoading := False\<rparr>"
    by blast
  then have "set ps = set (map toPrompt docs)" by (intro mset_eq_setD)
  with shown show ?thesis by simp
qed

text \<open>
  C5: an update with a non-blank draft, a store handle, an identity and the editing id
  \<open>pid\<close> sends one request, for the document \<open>pid\<close> of the user's collection, with the
  single field \<open>text\<close>. When the store accepts it, the collection \<open>docs'\<close> after it differs
  from \<open>docs\<close> in the \<open>text\<close> of that document only, and in the list presented after the
  next snapshot there is a prompt with id \<open>pid\<close>, each such prompt has the new text and
  the \<^verbatim>\<open>createdAt\<close> that document \<open>pid\<close> had before, and the prompts with other ids are
  those of \<open>docs\<close>. The documents are as this program writes them: ids distinct, no field
  twice, no field named \<open>id\<close>, \<^verbatim>\<open>createdAt\<close> a timestamp or missing.
\<close>

theorem update_writes_text_only:
  assumes draft: "editingPromptText s = JString t" "js_trim t \<noteq> []"
    and ready: "db s = Some h" "userId s = Some u" "u \<noteq> []"
    and target: "editingPromptId s = JString pid" "pid \<noteq> []"
    and wf: "\<forall>d\<in>set docs. doc_wf d \<and> map_of (snd d) ''id'' = None \<and> createdAt_typed (toPrompt d)"
    and ids: "distinct (map fst docs)"
    and ok: "store_updateDoc (collectionPath cfg (Some u)) docs
               (docPath cfg (Some u) (JString pid)) [(''text'', JString t)] = (Resolved, docs')"
  shows "handleUpdatePrompt_call cfg s
           = (s, Some (UpdateDoc (docPath cfg (Some u) (JString pid)) [(''text'', JString t)]))
    \<and> docs' = map (\<lambda>d. if fst d = pid
                         then (fst d, AList.update ''text'' (JString t) (snd d)) else d) docs
    \<and> (\<exists>p\<in>set (prompts (onSnapshot_next docs' (handleUpdatePrompt_settled Resolved s))).
          prop_of p ''id'' = JString pid)
    \<and> (\<forall>p\<in>set (prompts (onSnapshot_next docs' (handleUpdatePrompt_settled Resolved s))).
          prop_of p ''id'' = JString pid \<longrightarrow>
            prop_of p ''text'' = JString t
          \<and> (\<forall>d\<in>set docs. fst d = pid \<longrightarrow>
                prop_of p ''createdAt'' = prop_of (toPrompt d) ''createdAt''))
    \<and> (\<forall>p\<in>set (prompts (onSnapshot_next docs' (handleUpdatePrompt_settled Resolved s))).
          prop_of p ''id'' \<noteq> JString pid \<longrightarrow> p \<in> toPrompt ` set docs)"
proof -
  let ?upd = "\<lambda>d. if fst d = pid then (fst d, AList.update ''text'' (JString t) (snd d)) else d"
  let ?s1 = "handleUpdatePrompt_settled Resolved s"
  have call: "handleUpdatePrompt_call cfg s
      = (s, Some (UpdateDoc (docPath cfg (Some u) (JString pid)) [(''text'', JString t)]))"
    using draft ready target by (simp add: handleUpdatePrompt_call_def)
  from ok have mem: "pid \<in> fst ` set docs" and docs': "docs' = map ?upd docs"
    by (simp_all add: docPath_eq store_updateDoc_text split: if_splits)
  have prompt: "prop_of (toPrompt (?upd d)) k
      = (if fst d = pid \<and> k = ''text'' then JString t else prop_of (toPrompt d) k)"
    if "d \<in> set docs" for d k
    using that wf prop_of_updated [of d "JString t" k] by (cases "fst d = pid") auto
  have id_of: "prop_of (toPrompt d) ''id'' = JString (fst d)" if "d \<in> set docs" for d
    using that wf prop_of_toPrompt [of "snd d" "fst d" "''id''"] by (simp add: doc_wf_def)
  have typed: "\<forall>d'\<in>set docs'. createdAt_typed (toPrompt d')"
  proof
    fix d'
    assume "d' \<in> set docs'"
    then have "d' \<in> ?upd ` set docs" by (simp add: docs')
    then obtain d where d: "d \<in> set docs" and d': "d' = ?upd d"
      by blast
    from d wf have "createdAt_typed (toPrompt d)" by simp
    with prompt [OF d, of "''createdAt''"] show "createdAt_typed (toPrompt d')"
      unfolding d' by (simp add: createdAt_typed_def)
  qed
  from typed have "set (prompts (onSnapshot_next docs' ?s1)) = toPrompt ` set docs'"
    by (rule snapshot_shows_docs)
  then have shown:
    "set (prompts (onSnapshot_next docs' ?s1)) = (\<lambda>d. toPrompt (?upd d)) ` set docs"
    by (simp only: docs' set_map image_image)
  from mem obtain d0 where d0: "d0 \<in> set docs" "fst d0 = pid" by auto
  have ex: "\<exists>p\<in>set (prompts (onSnapshot_next docs' ?s1)). prop_of p ''id'' = JString pid"
    unfolding shown using d0 prompt [OF d0(1), of "''id''"] id_of [OF d0(1)] by force
  have all: "prop_of p ''text'' = JString t
      \<and> (\<forall>d\<in>set docs. fst d = pid \<longrightarrow> prop_of p ''createdAt'' = prop_of (toPrompt d) ''createdAt'')"
    if p: "p \<in> set (prompts (onSnapshot_next docs' ?s1))" and pid: "prop_of p ''id'' = JString pid"
    for p
  proof -
    from p obtain d where d: "d \<in> set docs" and pd: "p = toPrompt (?upd d)"
      unfolding shown by blast
    from pid pd prompt [OF d, of "''id''"] id_of [OF d] have fd: "fst d = pid" by simp
    have "d' = d" if "d' \<in> set docs" and "fst d' = pid" for d'
      using that d fd ids by (metis distinct_map inj_onD)
    with pd fd prompt [OF d, of "''text''"] prompt [OF d, of "''createdAt''"]
    show ?thesis by auto
  qed
  have others: "p \<in> toPrompt ` set docs"
    if p: "p \<in> set (prompts (onSnapshot_next docs' ?s1))"
      and pid: "prop_of p ''id'' \<noteq> JString pid"
    for p
  proof -
    from p obtain d where d: "d \<in> set docs" and pd: "p = toPrompt (?upd d)"
      unfolding shown by blast
    from pid pd prompt [OF d, of "''id''"] id_of [OF d] have "fst d \<noteq> pid" by auto
    with pd d show ?thesis by simp
  qed
  from call docs' ex all others show ?thesis by blast
qed

theorem update_writes_text_only_witness:
  "handleUpdatePrompt_call cfg0 editing_example
     = (editing_example,
        Some (UpdateDoc ''/artifacts/default-app-id/users/u1/prompts/p1''
                [(''text'', JString ''draft'')]))
   \<and> store_updateDoc (collectionPath cfg0 (Some ''u1'')) [doc_p1, doc_p3]
        (docPath cfg0 (Some ''u1'') (JString ''p1'')) [(''text'', JString ''draft'')]
       = (Resolved, [(''p1'', [(''text'', JString ''draft''), (''createdAt'', JTimestamp 1)]),
                     doc_p3])
   \<and> (\<exists>p\<in>set (prompts (onSnapshot_next
                  [(''p1'', [(''text'', JString ''draft''), (''createdAt'', JTimestamp 1)]), doc_p3]
                  (handleUpdatePrompt_settled Resolved editing_example))).
         prop_of p ''id'' = JString ''p1'' \<and> prop_of p ''text'' = JString ''draft''
         \<and> prop_of p ''createdAt'' = JTimestamp 1)"
proof -
  let ?docs' = "[(''p1'', [(''text'', JString ''draft''), (''createdAt'', JTimestamp 1)]), doc_p3]"
  have draft: "editingPromptText editing_example = JString ''draft''" "js_trim ''draft'' \<noteq> []"
    by (simp_all add: editing_example_eq js_trim_def js_whitespace_def)
  have ready: "db editing_example = Some 0" "userId editing_example = Some ''u1''" "''u1'' \<noteq> []"
    by (simp_all add: editing_example_eq loaded_example_eq)
  have target: "editingPromptId editing_example = JString ''p1''" "''p1'' \<noteq> []"
    by (simp_all add: editing_example_eq)
  have wf: "\<forall>d\<in>set [doc_p1, doc_p3].
      doc_wf d \<and> map_of (snd d) ''id'' = None \<and> createdAt_typed (toPrompt d)"
    by (simp add: doc_p1_def doc_p3_def doc_wf_def createdAt_typed_def toPrompt_def prop_of_def)
  have ids: "distinct (map fst [doc_p1, doc_p3])"
    by (simp add: doc_p1_def doc_p3_def)
  have ok: "store_updateDoc (collectionPath cfg0 (Some ''u1'')) [doc_p1, doc_p3]
      (docPath cfg0 (Some ''u1'') (JString ''p1'')) [(''text'', JString ''draft'')]
      = (Resolved, ?docs')"
    by (simp add: docPath_eq store_updateDoc_text doc_p1_def doc_p3_def)
  have path: "docPath cfg0 (Some ''u1'') (JString ''p1'')
      = ''/artifacts/default-app-id/users/u1/prompts/p1''"
    by (simp add: docPath_def appId_def cfg0_def)
  have before: "prop_of (toPrompt doc_p1) ''createdAt'' = JTimestamp 1" "fst doc_p1 = ''p1''"
    by (simp_all add: doc_p1_def toPrompt_def prop_of_def)
  note inst = update_writes_text_only [OF draft ready target wf ids ok]
  from inst path have call: "handleUpdatePrompt_call cfg0 editing_example
     = (editing_example,
        Some (UpdateDoc ''/artifacts/default-app-id/users/u1/prompts/p1''
                [(''text'', JString ''draft'')]))"
    by simp
  from inst obtain p
    where p: "p \<in> set (prompts (onSnapshot_next ?docs'
                (handleUpdatePrompt_settled Resolved editing_example)))"
      and pid: "prop_of p ''id'' = JString ''p1''"
    by blast
  from inst p pid have "prop_of p ''text'' = JString ''draft''
      \<and> (\<forall>d\<in>set [doc_p1, doc_p3]. fst d = ''p1'' \<longrightarrow>
            prop_of p ''createdAt'' = prop_of (toPrompt d) ''createdAt'')"
    by blast
  with before have "prop_of p ''text'' = JString ''draft''
      \<and> prop_of p ''createdAt'' = JTimestamp 1"
    by simp
  with p pid call ok show ?thesis by blast
qed

end
